theory Spec2Isabelle
  imports Complex_Main
begin

section \<open>Modelling conventions\<close>

text \<open>
  The development embeds the financial core of the rental-management API: the date
  utilities (\<^verbatim>\<open>utils/dates/index.js\<close>), the expense and income schemas with their
  computed totals, the expense and income services, and the dashboard service.

  \<^item> A JavaScript \<^verbatim>\<open>Number\<close> that enters or leaves an arithmetic operation on
    money is an IEEE double: a finite value, an infinity or \<^verbatim>\<open>NaN\<close>, and every
    operation is rounded to the nearest double (section \<open>Numbers\<close>). A number taken
    from a request or a stored rate (an amount, a percentage, a number of people, a
    timestamp) is finite and is given by its value, a \<^typ>\<open>real\<close>.
  \<^item> Calendar arithmetic on years, months and millisecond instants is done on
    \<^typ>\<open>int\<close>. A date built by moment in UTC mode is valid only within the range
    of a JavaScript \<^verbatim>\<open>Date\<close>, 8640000000000000 milliseconds either side of the
    epoch.
  \<^item> An invalid moment, and the \<^verbatim>\<open>NaN\<close> that its \<^verbatim>\<open>unix()\<close> returns, are \<open>None\<close>.
  \<^item> An optional property of a request object is an \<open>option\<close>; \<open>None\<close> is
    \<^verbatim>\<open>undefined\<close>.
  \<^item> A neverthrow result is a sum: \<open>Inl\<close> is \<^verbatim>\<open>err(...)\<close>, \<open>Inr\<close> is
    \<^verbatim>\<open>ok(...)\<close>.
  \<^item> Readings of the clock and of the host's time zone are parameters.
\<close>

section \<open>Date utilities\<close>

subsection \<open>UTC calendar arithmetic used by moment in UTC mode\<close>

text \<open>
  \<^verbatim>\<open>moment.tz([y, m, 1], "UTC")\<close> builds its instant with \<^verbatim>\<open>Date.UTC\<close>. The
  definitions follow the day-number arithmetic of the language standard:
  \<open>DayFromYear\<close> is the number of the first day of a year, counted from 1 January 1970,
  and \<open>MakeDay\<close> carries a month index outside \<open>0..11\<close> into the year.
\<close>

definition msPerDay :: int where
  "msPerDay = 86400000"

definition DaysInYear :: "int \<Rightarrow> int" where
  "DaysInYear y =
     (if y mod 4 \<noteq> 0 then 365
      else if y mod 100 \<noteq> 0 then 366
      else if y mod 400 \<noteq> 0 then 365
      else 366)"

definition InLeapYear :: "int \<Rightarrow> bool" where
  "InLeapYear y = (DaysInYear y = 366)"

definition DayFromYear :: "int \<Rightarrow> int" where
  "DayFromYear y =
     365 * (y - 1970) + (y - 1969) div 4 - (y - 1901) div 100 + (y - 1601) div 400"

text \<open>Number of the first day of month \<open>m\<close> (0 = January) within its year.\<close>

definition firstDayOfMonth :: "bool \<Rightarrow> int \<Rightarrow> int" where
  "firstDayOfMonth leap m =
     (let l = (if leap then 1 else 0) in
      if m = 0 then 0
      else if m = 1 then 31
      else if m = 2 then 59 + l
      else if m = 3 then 90 + l
      else if m = 4 then 120 + l
      else if m = 5 then 151 + l
      else if m = 6 then 181 + l
      else if m = 7 then 212 + l
      else if m = 8 then 243 + l
      else if m = 9 then 273 + l
      else if m = 10 then 304 + l
      else 334 + l)"

definition MakeDay :: "int \<Rightarrow> int \<Rightarrow> int \<Rightarrow> int" where
  "MakeDay year month date =
     (let ym = year + month div 12;
          mn = month mod 12
      in DayFromYear ym + firstDayOfMonth (InLeapYear ym) mn + date - 1)"

text \<open>
  The instant, in milliseconds from the epoch, of 00:00 UTC on day \<open>d\<close> of month \<open>m\<close> of
  year \<open>y\<close>: \<^verbatim>\<open>MakeDate(MakeDay(y, m, d), 0)\<close> of the language standard.
\<close>

definition utcInstant :: "int \<Rightarrow> int \<Rightarrow> int \<Rightarrow> int" where
  "utcInstant y m d = MakeDay y m d * msPerDay"

text \<open>
  \<^verbatim>\<open>TimeClip\<close>: the time value of a \<^verbatim>\<open>Date\<close> is at most 8640000000000000
  milliseconds from the epoch; beyond, it is \<^verbatim>\<open>NaN\<close>.
\<close>

definition TimeClip :: "int \<Rightarrow> int option" where
  "TimeClip t = (if - 8640000000000000 \<le> t \<and> t \<le> 8640000000000000 then Some t else None)"

text \<open>
  moment's \<^verbatim>\<open>utcStartOfDate(y, m, d)\<close>, that is \<^verbatim>\<open>Date.UTC(y, m, d)\<close>.
  (\<^verbatim>\<open>Date.UTC\<close> takes a year from 0 to 99 for a year of the twentieth century;
  moment undoes that by a detour through the year \<open>y + 400\<close>, so that the result is the
  instant of the date named, for every year.)
\<close>

definition utcStartOfDate :: "int \<Rightarrow> int \<Rightarrow> int \<Rightarrow> int option" where
  "utcStartOfDate y m d = TimeClip (utcInstant y m d)"

text \<open>
  A valid moment in UTC mode: the calendar fields its getters \<^verbatim>\<open>year()\<close> and
  \<^verbatim>\<open>month()\<close> return, and its instant in milliseconds. An invalid moment is
  \<open>None\<close>. \<^verbatim>\<open>moment.tz([y, m, 1], "UTC")\<close> is invalid when the month is outside
  \<open>0..11\<close> and when the instant of the date is outside the range of a \<^verbatim>\<open>Date\<close>.
\<close>

record moment_utc =
  year_of :: int
  month_of :: int
  valueOf :: int

definition moment_tz_UTC :: "int \<Rightarrow> int \<Rightarrow> moment_utc option" where
  "moment_tz_UTC y m =
     (if 0 \<le> m \<and> m \<le> 11
      then (case utcStartOfDate y m 1 of
              None \<Rightarrow> None
            | Some t \<Rightarrow> Some \<lparr>year_of = y, month_of = m, valueOf = t\<rparr>)
      else None)"

text \<open>
  On a valid moment \<^verbatim>\<open>startOf('month')\<close> sets the instant to
  \<^verbatim>\<open>utcStartOfDate(year(), month(), 1)\<close> and \<^verbatim>\<open>endOf('month')\<close> sets it to
  \<^verbatim>\<open>utcStartOfDate(year(), month() + 1, 1) - 1\<close>, both through
  \<^verbatim>\<open>Date.prototype.setTime\<close>, which clips the new time value; the moment is
  invalid afterwards when that value is \<^verbatim>\<open>NaN\<close>. \<^verbatim>\<open>unix()\<close> is
  \<^verbatim>\<open>Math.floor(valueOf() / 1000)\<close>.
\<close>

definition startOf_month :: "moment_utc \<Rightarrow> moment_utc option" where
  "startOf_month mo =
     map_option (\<lambda>t. mo\<lparr>valueOf := t\<rparr>) (utcStartOfDate (year_of mo) (month_of mo) 1)"

definition endOf_month :: "moment_utc \<Rightarrow> moment_utc option" where
  "endOf_month mo =
     (case utcStartOfDate (year_of mo) (month_of mo + 1) 1 of
        None \<Rightarrow> None
      | Some t \<Rightarrow> map_option (\<lambda>t. mo\<lparr>valueOf := t\<rparr>) (TimeClip (t - 1)))"

definition unix :: "moment_utc \<Rightarrow> int" where
  "unix mo = valueOf mo div 1000"

subsection \<open>getQuarterDates\<close>

text \<open>
  \<^verbatim>\<open>getQuarterDates(year, quarter)\<close>. The first parameter of the model is the reading
  of \<^verbatim>\<open>getCurrentYear()\<close>. The test \<^verbatim>\<open>!year\<close> holds for an omitted year and for
  the number 0.
\<close>

record quarterDates =
  startOfQuarter :: "int option"
  endOfQuarter :: "int option"

definition getQuarterDates :: "int \<Rightarrow> int option \<Rightarrow> int \<Rightarrow> quarterDates" where
  "getQuarterDates currentYear year quarter =
     (let year = (case year of None \<Rightarrow> currentYear
                             | Some y \<Rightarrow> if y = 0 then currentYear else y);
          startMonth = (quarter - 1) * 3
      in \<lparr>startOfQuarter =
             (case moment_tz_UTC year startMonth of
                None \<Rightarrow> None
              | Some mo \<Rightarrow> map_option (\<lambda>mo. unix mo * 1000) (startOf_month mo)),
          endOfQuarter =
             (case moment_tz_UTC year (startMonth + 2) of
                None \<Rightarrow> None
              | Some mo \<Rightarrow> map_option (\<lambda>mo. unix mo * 1000) (endOf_month mo))\<rparr>)"

subsection \<open>getCurrentQuarter\<close>

text \<open>
  \<^verbatim>\<open>getCurrentQuarter()\<close> as the dashboard calls it, without argument; the parameter
  is the reading of \<^verbatim>\<open>moment().month()\<close>, between 0 and 11.
\<close>

definition getCurrentQuarter :: "int \<Rightarrow> int" where
  "getCurrentQuarter currentMonth = currentMonth div 3 + 1"

subsection \<open>The calendar in the words of the specification\<close>

text \<open>
  The specification speaks of the first instant (00:00:00.000 UTC) and of the last
  millisecond (23:59:59.999 UTC) of a month. These definitions count calendar days from
  1 January 1970 one year and one month at a time, with the Gregorian leap rule and
  86400000 milliseconds in a day. They are independent of the closed formula above.
\<close>

definition spec_leap_year :: "int \<Rightarrow> bool" where
  "spec_leap_year y = (4 dvd y \<and> (\<not> 100 dvd y \<or> 400 dvd y))"

definition spec_days_in_year :: "int \<Rightarrow> int" where
  "spec_days_in_year y = (if spec_leap_year y then 366 else 365)"

definition spec_days_in_month :: "int \<Rightarrow> nat \<Rightarrow> int" where
  "spec_days_in_month y m =
     (if m = 1 then (if spec_leap_year y then 29 else 28)
      else if m \<in> {3, 5, 8, 10} then 30
      else 31)"

text \<open>Days in the \<open>n\<close> years from 1970 on, and in the \<open>n\<close> years before 1970.\<close>

fun spec_days_forward :: "nat \<Rightarrow> int" where
  "spec_days_forward 0 = 0"
| "spec_days_forward (Suc n) = spec_days_forward n + spec_days_in_year (1970 + int n)"

fun spec_days_backward :: "nat \<Rightarrow> int" where
  "spec_days_backward 0 = 0"
| "spec_days_backward (Suc n) = spec_days_backward n + spec_days_in_year (1969 - int n)"

definition spec_first_day_of_year :: "int \<Rightarrow> int" where
  "spec_first_day_of_year y =
     (if 1970 \<le> y then spec_days_forward (nat (y - 1970))
      else - spec_days_backward (nat (1970 - y)))"

fun spec_days_before_month :: "int \<Rightarrow> nat \<Rightarrow> int" where
  "spec_days_before_month y 0 = 0"
| "spec_days_before_month y (Suc m) = spec_days_before_month y m + spec_days_in_month y m"

definition spec_first_instant_of_month :: "int \<Rightarrow> int \<Rightarrow> int" where
  "spec_first_instant_of_month y m =
     (spec_first_day_of_year y + spec_days_before_month y (nat m)) * 86400000"

definition spec_last_millisecond_of_month :: "int \<Rightarrow> int \<Rightarrow> int" where
  "spec_last_millisecond_of_month y m =
     spec_first_instant_of_month y m + spec_days_in_month y (nat m) * 86400000 - 1"

subsection \<open>calculateDaysDifference\<close>

text \<open>
  \<^verbatim>\<open>moment(x)\<close> is a moment in local mode, in the time zone of the host process. The
  zone is a parameter: the offset from UTC, in milliseconds, in force at a UTC instant.
  A local-mode moment is represented by its wall-clock reading, the instant plus the
  offset in force. On wall-clock readings \<^verbatim>\<open>startOf('day')\<close> and
  \<^verbatim>\<open>endOf('day')\<close> move to 00:00:00.000 and to 23:59:59.999 of the same calendar day,
  and \<^verbatim>\<open>a.diff(b, 'days')\<close> is the difference of the two readings in days, truncated
  towards zero (moment subtracts the change of offset between the two instants before it
  divides). \<^verbatim>\<open>isAfter\<close> compares two readings; this is exact in a zone of constant
  offset, and between the start of one calendar day and the end of another in any zone.
  The zone is assumed to have no transition at local midnight.

  \<^verbatim>\<open>moment\<close> takes a number of milliseconds, truncated to an integer as
  \<^verbatim>\<open>new Date(number)\<close> does, or an existing moment, which it copies.
\<close>

type_synonym zone = "int \<Rightarrow> int"

datatype momentInput = Millis real | MomentObject int

definition js_trunc :: "real \<Rightarrow> int" where
  "js_trunc x = (if 0 \<le> x then \<lfloor>x\<rfloor> else \<lceil>x\<rceil>)"

fun moment :: "zone \<Rightarrow> momentInput \<Rightarrow> int" where
  "moment z (Millis x) = (let t = js_trunc x in t + z t)"
| "moment z (MomentObject w) = w"

definition startOf_day :: "int \<Rightarrow> int" where
  "startOf_day w = w - w mod msPerDay"

definition endOf_day :: "int \<Rightarrow> int" where
  "endOf_day w = w - w mod msPerDay + msPerDay - 1"

definition isAfter :: "int \<Rightarrow> int \<Rightarrow> bool" where
  "isAfter a b = (b < a)"

text \<open>moment's \<^verbatim>\<open>absFloor\<close> of a quotient: rounding towards zero.\<close>

definition absFloor_div :: "int \<Rightarrow> int \<Rightarrow> int" where
  "absFloor_div n d = (if n < 0 then - ((- n) div d) else n div d)"

definition diff_days :: "int \<Rightarrow> int \<Rightarrow> int" where
  "diff_days this that = absFloor_div (this - that) msPerDay"

definition calculateDaysDifference :: "zone \<Rightarrow> momentInput \<Rightarrow> momentInput \<Rightarrow> int" where
  "calculateDaysDifference z checkIn checkOut =
     (let startDate = startOf_day (moment z checkIn);
          endDate = endOf_day (moment z checkOut)
      in diff_days endDate startDate)"

section \<open>Numbers\<close>

text \<open>
  A JavaScript \<^verbatim>\<open>Number\<close> in an arithmetic expression: a finite double, given by
  its value, one of the two infinities, or \<^verbatim>\<open>NaN\<close>. The sign of a zero is not
  modelled; the code divides by the literal 100 only.
\<close>

datatype number = Num real | Infinity | MinusInfinity | NaN

text \<open>
  Rounding to the nearest double, ties to the even significand. \<open>pow2_floor n a\<close> is the
  largest power of two that is not above \<open>a\<close>, searched from 1 in at most \<open>n\<close> doublings or
  halvings; 1100 steps reach the exponent of every double. \<open>ulp a\<close> is the distance
  between neighbouring doubles at the magnitude \<open>a\<close>: that power of two divided by
  \<open>2 ^ 52\<close>, and \<open>1 / 2 ^ 1074\<close> among the subnormal doubles below \<open>1 / 2 ^ 1022\<close>.
  \<open>nearest_double\<close> rounds as if the exponent had no upper bound, and \<open>round_double\<close>
  turns a result of magnitude \<open>2 ^ 1024\<close> or more into an infinity.
\<close>

fun pow2_floor :: "nat \<Rightarrow> real \<Rightarrow> real" where
  "pow2_floor 0 a = 1"
| "pow2_floor (Suc n) a =
     (if 2 \<le> a then 2 * pow2_floor n (a / 2)
      else if a < 1 then pow2_floor n (a * 2) / 2
      else 1)"

definition ulp :: "real \<Rightarrow> real" where
  "ulp a = max (pow2_floor 1100 a) (1 / 2 ^ 1022) / 2 ^ 52"

definition round_ties_even :: "real \<Rightarrow> int" where
  "round_ties_even m =
     (let f = \<lfloor>m\<rfloor>;
          r = m - of_int f
      in if r < 1 / 2 then f
         else if 1 / 2 < r then f + 1
         else if even f then f
         else f + 1)"

definition nearest_double :: "real \<Rightarrow> real" where
  "nearest_double x =
     (if x = 0 then 0
      else sgn x * (of_int (round_ties_even (\<bar>x\<bar> / ulp \<bar>x\<bar>)) * ulp \<bar>x\<bar>))"

definition round_double :: "real \<Rightarrow> number" where
  "round_double x =
     (let y = nearest_double x
      in if 2 ^ 1024 \<le> y then Infinity
         else if y \<le> - (2 ^ 1024) then MinusInfinity
         else Num y)"

text \<open>
  The four arithmetic operators. The result of an operation on two finite numbers is the
  exact result, rounded. A zero divisor is taken for \<open>+0\<close>.
\<close>

fun is_negative :: "number \<Rightarrow> bool" where
  "is_negative (Num x) = (x < 0)"
| "is_negative MinusInfinity = True"
| "is_negative Infinity = False"
| "is_negative NaN = False"

definition infinity_signed :: "bool \<Rightarrow> number" where
  "infinity_signed negative = (if negative then MinusInfinity else Infinity)"

fun js_neg :: "number \<Rightarrow> number" where
  "js_neg (Num x) = Num (- x)"
| "js_neg Infinity = MinusInfinity"
| "js_neg MinusInfinity = Infinity"
| "js_neg NaN = NaN"

fun js_add :: "number \<Rightarrow> number \<Rightarrow> number" where
  "js_add (Num x) (Num y) = round_double (x + y)"
| "js_add NaN b = NaN"
| "js_add a NaN = NaN"
| "js_add Infinity MinusInfinity = NaN"
| "js_add MinusInfinity Infinity = NaN"
| "js_add Infinity b = Infinity"
| "js_add MinusInfinity b = MinusInfinity"
| "js_add (Num x) b = b"

definition js_sub :: "number \<Rightarrow> number \<Rightarrow> number" where
  "js_sub a b = js_add a (js_neg b)"

fun js_mul :: "number \<Rightarrow> number \<Rightarrow> number" where
  "js_mul (Num x) (Num y) = round_double (x * y)"
| "js_mul NaN b = NaN"
| "js_mul a NaN = NaN"
| "js_mul a b =
     (if a = Num 0 \<or> b = Num 0 then NaN
      else infinity_signed (is_negative a \<noteq> is_negative b))"

fun js_div :: "number \<Rightarrow> number \<Rightarrow> number" where
  "js_div (Num x) (Num y) =
     (if y = 0 then (if x = 0 then NaN else infinity_signed (x < 0))
      else round_double (x / y))"
| "js_div NaN b = NaN"
| "js_div a NaN = NaN"
| "js_div (Num x) b = Num 0"
| "js_div a (Num y) = infinity_signed (is_negative a \<noteq> (y < 0))"
| "js_div a b = NaN"

text \<open>\<^verbatim>\<open>undefined\<close> in an arithmetic expression is \<^verbatim>\<open>NaN\<close>.\<close>

definition ToNumber :: "real option \<Rightarrow> number" where
  "ToNumber x = (case x of None \<Rightarrow> NaN | Some v \<Rightarrow> Num v)"

section \<open>Documents and schema methods\<close>

text \<open>
  Documents are records; the fields of each collection carry a prefix, because two
  collections share field names. Document identifiers are strings, each standing for a
  well-formed \<^verbatim>\<open>ObjectId\<close>. The \<^verbatim>\<open>createdAt\<close> and \<^verbatim>\<open>updatedAt\<close> stamps are
  left out. A property that may be \<^verbatim>\<open>null\<close> is an \<open>option\<close>. The totals, which the
  schema methods compute, are of type \<^typ>\<open>number\<close>; the other numbers of a document
  come from requests and are finite.
\<close>

subsection \<open>Expense schema\<close>

record expense_doc =
  e_id :: string
  e_apartmentId :: string
  e_concept :: string
  e_date :: real
  e_providerNif :: "string option"
  e_expense :: real
  e_iva :: real
  e_totalIva :: number
  e_totalInvoice :: number
  e_paid :: bool

text \<open>The object passed to \<^verbatim>\<open>createNewExpense\<close>; \<open>paid\<close> has the schema default \<open>false\<close>.\<close>

record expense_input =
  x_apartmentId :: string
  x_concept :: string
  x_date :: real
  x_providerNif :: string
  x_expense :: real
  x_iva :: real
  x_paid :: "bool option"

text \<open>The first parameter is the identifier the store gives to the new document.\<close>

definition createNewExpense :: "string \<Rightarrow> expense_input \<Rightarrow> expense_doc" where
  "createNewExpense newId expense =
     (let totalIva = js_div (js_mul (Num (x_expense expense)) (Num (x_iva expense))) (Num 100);
          totalInvoice = js_add (Num (x_expense expense)) totalIva
      in \<lparr>e_id = newId,
          e_apartmentId = x_apartmentId expense,
          e_concept = x_concept expense,
          e_date = x_date expense,
          e_providerNif = Some (x_providerNif expense),
          e_expense = x_expense expense,
          e_iva = x_iva expense,
          e_totalIva = totalIva,
          e_totalInvoice = totalInvoice,
          e_paid = (case x_paid expense of None \<Rightarrow> False | Some p \<Rightarrow> p)\<rparr>)"

text \<open>
  The \<^verbatim>\<open>data\<close> object of \<^verbatim>\<open>update\<close>: a field is \<open>Some v\<close> when
  \<^verbatim>\<open>data.hasOwnProperty\<close> holds for it. The assignments guarded by
  \<^verbatim>\<open>hasOwnProperty\<close> are independent of each other and are written as one record
  update; the totals are recomputed afterwards from the fields of the document.
\<close>

record expense_updateData =
  ud_apartmentId :: "string option"
  ud_concept :: "string option"
  ud_date :: "real option"
  ud_providerNif :: "string option"
  ud_expense :: "real option"
  ud_iva :: "real option"
  ud_paid :: "bool option"

definition own :: "'a option \<Rightarrow> 'a \<Rightarrow> 'a" where
  "own property current = (case property of None \<Rightarrow> current | Some v \<Rightarrow> v)"

definition expense_update :: "expense_doc \<Rightarrow> expense_updateData \<Rightarrow> expense_doc" where
  "expense_update this data =
     (let this = this\<lparr>e_apartmentId := own (ud_apartmentId data) (e_apartmentId this),
                        e_concept := own (ud_concept data) (e_concept this),
                        e_date := own (ud_date data) (e_date this),
                        e_providerNif :=
                          (case ud_providerNif data of
                             None \<Rightarrow> e_providerNif this
                           | Some v \<Rightarrow> Some v),
                        e_expense := own (ud_expense data) (e_expense this),
                        e_iva := own (ud_iva data) (e_iva this),
                        e_paid := own (ud_paid data) (e_paid this)\<rparr>;
          this = this\<lparr>e_totalIva :=
                   js_div (js_mul (Num (e_expense this)) (Num (e_iva this))) (Num 100)\<rparr>;
          this = this\<lparr>e_totalInvoice := js_add (Num (e_expense this)) (e_totalIva this)\<rparr>
      in this)"

subsection \<open>Rate and income schemas\<close>

record rate_doc =
  r_id :: string
  r_apartmentId :: string
  r_name :: string
  r_pricePerNight :: real
  r_iva :: real

record income_doc =
  i_id :: string
  i_apartmentId :: string
  i_intermediaryId :: string
  i_rateId :: string
  i_checkIn :: real
  i_checkOut :: real
  i_nights :: int
  i_clientName :: string
  i_clientNif :: string
  i_clientPhone :: string
  i_numberOfPeople :: real
  i_discount :: real
  i_totalIva :: number
  i_totalInvoice :: number
  i_observations :: "string option"

record income_input =
  n_apartmentId :: string
  n_intermediaryId :: string
  n_rateId :: string
  n_checkIn :: real
  n_checkOut :: real
  n_clientName :: string
  n_clientNif :: string
  n_clientPhone :: string
  n_numberOfPeople :: real
  n_discount :: "real option"
  n_observations :: "string option"

text \<open>\<^verbatim>\<open>Rate.findOne({_id: rateId})\<close> on the rate collection.\<close>

definition Rate_findOne :: "rate_doc list \<Rightarrow> string \<Rightarrow> rate_doc option" where
  "Rate_findOne rates rateId = find (\<lambda>r. r_id r = rateId) rates"

text \<open>
  \<^verbatim>\<open>create\<close> and \<^verbatim>\<open>save\<close> validate the document (\<^verbatim>\<open>validateBeforeSave\<close>)
  and throw a validation error when a path fails: a required string that is empty, or a
  \<^verbatim>\<open>Number\<close> path that was given \<^verbatim>\<open>NaN\<close>. An infinity is a valid
  \<^verbatim>\<open>Number\<close>. The message of the error names the failing paths; the sentence that
  Mongoose adds for each of them is left out.
\<close>

definition income_invalid_paths :: "income_doc \<Rightarrow> string list" where
  "income_invalid_paths doc =
     (if i_clientName doc = [] then [''clientName''] else [])
     @ (if i_clientNif doc = [] then [''clientNif''] else [])
     @ (if i_clientPhone doc = [] then [''clientPhone''] else [])
     @ (if i_totalIva doc = NaN then [''totalIva''] else [])
     @ (if i_totalInvoice doc = NaN then [''totalInvoice''] else [])"

definition income_validate :: "income_doc \<Rightarrow> string + income_doc" where
  "income_validate doc =
     (if income_invalid_paths doc = [] then Inr doc
      else Inl (''income validation failed:'' @ concat (map (\<lambda>p. '' '' @ p) (income_invalid_paths doc))))"

text \<open>
  \<^verbatim>\<open>createNewIncome\<close> of the income schema. \<open>Inl\<close> is the message of a thrown
  error: reading \<^verbatim>\<open>rate.pricePerNight\<close> of a rate that was not found, or the
  validation error of \<^verbatim>\<open>create\<close>. An absent discount makes every total
  \<^verbatim>\<open>NaN\<close>; the schema default 0 stands for it in the document. The check-in and
  check-out stored on the document are in seconds; their products with 1000 are rounded
  like every product. (A product beyond the range of a \<^verbatim>\<open>Date\<close> gives an invalid
  moment and nights that are \<^verbatim>\<open>NaN\<close>, which \<^verbatim>\<open>create\<close> refuses; the model
  does not tell that case apart.)
\<close>

definition income_createNewIncome ::
  "zone \<Rightarrow> rate_doc list \<Rightarrow> string \<Rightarrow> income_input \<Rightarrow> string + income_doc" where
  "income_createNewIncome z rates newId income =
     (let startDate =
            startOf_day (moment z (Millis (nearest_double (n_checkIn income * 1000))));
          endDate =
            endOf_day (moment z (Millis (nearest_double (n_checkOut income * 1000))));
          nights = calculateDaysDifference z (MomentObject startDate) (MomentObject endDate)
      in case Rate_findOne rates (n_rateId income) of
           None \<Rightarrow> Inl ''Cannot read properties of null (reading pricePerNight)''
         | Some rate \<Rightarrow>
             (let baseAmount =
                    js_mul (js_mul (Num (r_pricePerNight rate)) (Num (n_numberOfPeople income)))
                      (Num (of_int nights));
                  discountAmount =
                    js_mul baseAmount (js_div (ToNumber (n_discount income)) (Num 100));
                  totalAfterDiscount = js_sub baseAmount discountAmount;
                  totalIva = js_mul totalAfterDiscount (js_div (Num (r_iva rate)) (Num 100));
                  totalInvoice = js_add totalAfterDiscount totalIva
              in income_validate
                   \<lparr>i_id = newId,
                    i_apartmentId = n_apartmentId income,
                    i_intermediaryId = n_intermediaryId income,
                    i_rateId = n_rateId income,
                    i_checkIn = n_checkIn income,
                    i_checkOut = n_checkOut income,
                    i_nights = nights,
                    i_clientName = n_clientName income,
                    i_clientNif = n_clientNif income,
                    i_clientPhone = n_clientPhone income,
                    i_numberOfPeople = n_numberOfPeople income,
                    i_discount = (case n_discount income of None \<Rightarrow> 0 | Some d \<Rightarrow> d),
                    i_totalIva = totalIva,
                    i_totalInvoice = totalInvoice,
                    i_observations = n_observations income\<rparr>))"

record income_updateData =
  ui_apartmentId :: "string option"
  ui_intermediaryId :: "string option"
  ui_rateId :: "string option"
  ui_checkIn :: "real option"
  ui_checkOut :: "real option"
  ui_clientName :: "string option"
  ui_clientNif :: "string option"
  ui_clientPhone :: "string option"
  ui_numberOfPeople :: "real option"
  ui_discount :: "real option"
  ui_observations :: "string option"

definition income_update ::
  "zone \<Rightarrow> rate_doc list \<Rightarrow> income_doc \<Rightarrow> income_updateData \<Rightarrow> string + income_doc" where
  "income_update z rates this data =
     (let this = this\<lparr>i_apartmentId := own (ui_apartmentId data) (i_apartmentId this),
                        i_intermediaryId := own (ui_intermediaryId data) (i_intermediaryId this),
                        i_rateId := own (ui_rateId data) (i_rateId this),
                        i_checkIn := own (ui_checkIn data) (i_checkIn this),
                        i_checkOut := own (ui_checkOut data) (i_checkOut this),
                        i_clientName := own (ui_clientName data) (i_clientName this),
                        i_clientNif := own (ui_clientNif data) (i_clientNif this),
                        i_clientPhone := own (ui_clientPhone data) (i_clientPhone this),
                        i_numberOfPeople := own (ui_numberOfPeople data) (i_numberOfPeople this),
                        i_discount := own (ui_discount data) (i_discount this),
                        i_observations :=
                          (case ui_observations data of
                             None \<Rightarrow> i_observations this
                           | Some v \<Rightarrow> Some v)\<rparr>;
          startDate =
            startOf_day (moment z (Millis (nearest_double (i_checkIn this * 1000))));
          endDate =
            endOf_day (moment z (Millis (nearest_double (i_checkOut this * 1000))));
          this = this\<lparr>i_nights :=
                   calculateDaysDifference z (MomentObject startDate) (MomentObject endDate)\<rparr>
      in case Rate_findOne rates (i_rateId this) of
           None \<Rightarrow> Inl ''Cannot read properties of null (reading pricePerNight)''
         | Some rate \<Rightarrow>
             (let baseAmount =
                    js_mul (js_mul (Num (r_pricePerNight rate)) (Num (i_numberOfPeople this)))
                      (Num (of_int (i_nights this)));
                  discountAmount = js_mul baseAmount (js_div (Num (i_discount this)) (Num 100));
                  totalAfterDiscount = js_sub baseAmount discountAmount;
                  this = this\<lparr>i_totalIva :=
                           js_mul totalAfterDiscount (js_div (Num (r_iva rate)) (Num 100))\<rparr>;
                  this = this\<lparr>i_totalInvoice := js_add totalAfterDiscount (i_totalIva this)\<rparr>
              in income_validate this))"

section \<open>Services\<close>

text \<open>
  The environment of a request: the host's time zone and the reading of the clock
  (\<^verbatim>\<open>moment()\<close>), with the calendar year and month that
  \<^verbatim>\<open>moment().year()\<close> and \<^verbatim>\<open>moment().month()\<close> return. The store holds the
  identifiers of the apartments and intermediaries and the documents of the other
  collections. A service returns its result and the store it leaves.
\<close>

record env =
  tz :: zone
  now :: int
  currentYear :: int
  currentMonth :: int

record db =
  db_apartments :: "string list"
  db_intermediaries :: "string list"
  db_rates :: "rate_doc list"
  db_incomes :: "income_doc list"
  db_expenses :: "expense_doc list"

record api_error =
  err_code :: nat
  err_error :: string
  err_message :: string

definition BAD_REQUEST :: "string \<Rightarrow> api_error" where
  "BAD_REQUEST msg = \<lparr>err_code = 400, err_error = ''Bad Request'', err_message = msg\<rparr>"

definition NOT_FOUND :: "string \<Rightarrow> api_error" where
  "NOT_FOUND msg = \<lparr>err_code = 404, err_error = ''Not Found'', err_message = msg\<rparr>"

definition INTERNAL_SERVER_ERROR :: "string \<Rightarrow> api_error" where
  "INTERNAL_SERVER_ERROR msg =
     \<lparr>err_code = 500, err_error = ''Internal Server Error'', err_message = msg\<rparr>"

text \<open>
  The test \<^verbatim>\<open>if (x)\<close> on an optional property: the value when it is truthy. A number
  is falsy when it is 0, a string when it is empty, a boolean when it is \<^verbatim>\<open>false\<close>.
\<close>

definition truthy_num :: "real option \<Rightarrow> real option" where
  "truthy_num x = (case x of None \<Rightarrow> None | Some v \<Rightarrow> if v = 0 then None else Some v)"

definition truthy_str :: "string option \<Rightarrow> string option" where
  "truthy_str x = (case x of None \<Rightarrow> None | Some v \<Rightarrow> if v = [] then None else Some v)"

definition truthy_bool :: "bool option \<Rightarrow> bool option" where
  "truthy_bool x = (case x of None \<Rightarrow> None | Some v \<Rightarrow> if v then Some v else None)"

text \<open>\<^verbatim>\<open>moment()\<close> and \<^verbatim>\<open>moment(x)\<close> for an optional \<open>x\<close>: \<^verbatim>\<open>moment(undefined)\<close> is the present.\<close>

definition moment_now :: "env \<Rightarrow> int" where
  "moment_now env = now env + tz env (now env)"

definition moment_opt :: "env \<Rightarrow> real option \<Rightarrow> int" where
  "moment_opt env x = (case x of None \<Rightarrow> moment_now env | Some v \<Rightarrow> moment (tz env) (Millis v))"

text \<open>\<^verbatim>\<open>document.save()\<close>: the stored document with the same identifier is replaced.\<close>

definition save_expense :: "expense_doc \<Rightarrow> expense_doc list \<Rightarrow> expense_doc list" where
  "save_expense doc docs = map (\<lambda>d. if e_id d = e_id doc then doc else d) docs"

definition save_income :: "income_doc \<Rightarrow> income_doc list \<Rightarrow> income_doc list" where
  "save_income doc docs = map (\<lambda>d. if i_id d = i_id doc then doc else d) docs"

subsection \<open>Expense service\<close>

record expense_request =
  q_concept :: "string option"
  q_apartmentId :: "string option"
  q_date :: "real option"
  q_providerNif :: "string option"
  q_expense :: "real option"
  q_iva :: "real option"
  q_paid :: "bool option"

definition updateExpenseById ::
  "env \<Rightarrow> db \<Rightarrow> string \<Rightarrow> expense_request \<Rightarrow> (api_error + expense_doc) \<times> db" where
  "updateExpenseById env db expenseId expenseData =
     (case find (\<lambda>d. e_id d = expenseId) (db_expenses db) of
        None \<Rightarrow> (Inl (NOT_FOUND (''Expense '' @ expenseId @ '' not found'')), db)
      | Some expense \<Rightarrow>
          (case (case truthy_str (q_apartmentId expenseData) of
                   None \<Rightarrow> None
                 | Some a \<Rightarrow> if a \<in> set (db_apartments db) then None else Some a) of
             Some a \<Rightarrow>
               (Inl (NOT_FOUND (''Apartment '' @ a @ '' not found for the expense to update'')), db)
           | None \<Rightarrow>
               (case (case truthy_num (q_date expenseData) of
                        None \<Rightarrow> False
                      | Some d \<Rightarrow>
                          isAfter (moment (tz env) (Millis d)) (endOf_day (moment_now env))) of
                  True \<Rightarrow>
                    (Inl (BAD_REQUEST ''Expense date must be before or equal than today''), db)
                | False \<Rightarrow>
                    (let updateData =
                           \<lparr>ud_apartmentId = truthy_str (q_apartmentId expenseData),
                            ud_concept = truthy_str (q_concept expenseData),
                            ud_date = truthy_num (q_date expenseData),
                            ud_providerNif = truthy_str (q_providerNif expenseData),
                            ud_expense = truthy_num (q_expense expenseData),
                            ud_iva = truthy_num (q_iva expenseData),
                            ud_paid = truthy_bool (q_paid expenseData)\<rparr>;
                         updatedExpense = expense_update expense updateData
                     in (Inr updatedExpense,
                         db\<lparr>db_expenses := save_expense updatedExpense (db_expenses db)\<rparr>)))))"

subsection \<open>Income service\<close>

record income_request =
  iq_apartmentId :: "string option"
  iq_intermediaryId :: "string option"
  iq_rateId :: "string option"
  iq_checkIn :: "real option"
  iq_checkOut :: "real option"
  iq_clientName :: "string option"
  iq_clientNif :: "string option"
  iq_clientPhone :: "string option"
  iq_numberOfPeople :: "real option"
  iq_discount :: "real option"
  iq_observations :: "string option"

text \<open>
  \<^verbatim>\<open>createNewIncome\<close> of the income service. The third parameter is the identifier of
  the new document. The validation passes check-in and check-out to \<^verbatim>\<open>moment\<close> as
  they arrive.
\<close>

definition createNewIncome ::
  "env \<Rightarrow> db \<Rightarrow> string \<Rightarrow> income_request \<Rightarrow> (api_error + income_doc) \<times> db" where
  "createNewIncome env db newId req =
     (case truthy_str (iq_apartmentId req) of
        None \<Rightarrow> (Inl (BAD_REQUEST ''Missing apartment ID for the income''), db)
      | Some apartmentId \<Rightarrow>
     if apartmentId \<notin> set (db_apartments db)
     then (Inl (BAD_REQUEST ''Apartment ID not found for the income to create''), db)
     else
     (case truthy_str (iq_intermediaryId req) of
        None \<Rightarrow> (Inl (BAD_REQUEST ''Missing intermediary ID for the income''), db)
      | Some intermediaryId \<Rightarrow>
     if intermediaryId \<notin> set (db_intermediaries db)
     then (Inl (BAD_REQUEST ''Intermediary ID not found for the income to create''), db)
     else
     (case truthy_str (iq_rateId req) of
        None \<Rightarrow> (Inl (BAD_REQUEST ''Missing rate ID for the income''), db)
      | Some rateId \<Rightarrow>
     (case find (\<lambda>r. r_id r = rateId) (db_rates db) of
        None \<Rightarrow> (Inl (BAD_REQUEST ''Rate ID not found for the income to create''), db)
      | Some rate \<Rightarrow>
     if r_apartmentId rate \<noteq> apartmentId
     then (Inl (BAD_REQUEST (''Rate ID <'' @ r_apartmentId rate
                  @ ''> unauthorized for apartment ID <'' @ apartmentId
                  @ ''> to create income'')), db)
     else
     (case truthy_num (iq_checkIn req) of
        None \<Rightarrow> (Inl (BAD_REQUEST ''Missing check in date for the income''), db)
      | Some checkIn \<Rightarrow>
     (case truthy_num (iq_checkOut req) of
        None \<Rightarrow> (Inl (BAD_REQUEST ''Missing check out date for the income''), db)
      | Some checkOut \<Rightarrow>
     if isAfter (startOf_day (moment (tz env) (Millis checkIn)))
                (endOf_day (moment (tz env) (Millis checkOut)))
     then (Inl (BAD_REQUEST ''Income check in date must be before than check out date''), db)
     else
     (case truthy_str (iq_clientName req) of
        None \<Rightarrow> (Inl (BAD_REQUEST ''Missing clientName for the income''), db)
      | Some clientName \<Rightarrow>
     (case truthy_str (iq_clientNif req) of
        None \<Rightarrow> (Inl (BAD_REQUEST ''Missing clientNif for the income''), db)
      | Some clientNif \<Rightarrow>
     (case truthy_str (iq_clientPhone req) of
        None \<Rightarrow> (Inl (BAD_REQUEST ''Missing clientPhone for the income''), db)
      | Some clientPhone \<Rightarrow>
     (case truthy_num (iq_numberOfPeople req) of
        None \<Rightarrow> (Inl (BAD_REQUEST ''Missing number of people for the income''), db)
      | Some numberOfPeople \<Rightarrow>
     (case income_createNewIncome (tz env) (db_rates db) newId
             \<lparr>n_apartmentId = apartmentId,
              n_intermediaryId = intermediaryId,
              n_rateId = rateId,
              n_checkIn = checkIn,
              n_checkOut = checkOut,
              n_clientName = clientName,
              n_clientNif = clientNif,
              n_clientPhone = clientPhone,
              n_numberOfPeople = numberOfPeople,
              n_discount = iq_discount req,
              n_observations = iq_observations req\<rparr> of
        Inl e \<Rightarrow> (Inl (INTERNAL_SERVER_ERROR e), db)
      | Inr createdIncome \<Rightarrow>
          (Inr createdIncome, db\<lparr>db_incomes := db_incomes db @ [createdIncome]\<rparr>))))))))))))"

text \<open>
  \<^verbatim>\<open>updateIncomeById\<close>. When a rate identifier is given and the rate exists, the
  function compares \<^verbatim>\<open>rate.apartmentId\<close> with \<^verbatim>\<open>apartmentId\<close>, a name that is not
  declared in its scope: the reference throws and the \<^verbatim>\<open>catch\<close> clause answers with an
  internal error. The check on the check-out date reads \<^verbatim>\<open>incomeData.checkIn\<close> as it
  arrives, so an absent check-in stands for the present.
\<close>

definition updateIncomeById ::
  "env \<Rightarrow> db \<Rightarrow> string \<Rightarrow> income_request \<Rightarrow> (api_error + income_doc) \<times> db" where
  "updateIncomeById env db incomeId incomeData =
     (case find (\<lambda>d. i_id d = incomeId) (db_incomes db) of
        None \<Rightarrow> (Inl (NOT_FOUND (''Income '' @ incomeId @ '' not found'')), db)
      | Some income \<Rightarrow>
     (case (case truthy_str (iq_apartmentId incomeData) of
              None \<Rightarrow> None
            | Some a \<Rightarrow> if a \<in> set (db_apartments db) then None else Some a) of
        Some a \<Rightarrow>
          (Inl (NOT_FOUND (''Apartment '' @ a @ '' not found for the income to update'')), db)
      | None \<Rightarrow>
     (case (case truthy_str (iq_intermediaryId incomeData) of
              None \<Rightarrow> None
            | Some i \<Rightarrow> if i \<in> set (db_intermediaries db) then None else Some i) of
        Some i \<Rightarrow>
          (Inl (NOT_FOUND (''Intermediary '' @ i @ '' not found for the income to update'')), db)
      | None \<Rightarrow>
     (case truthy_str (iq_rateId incomeData) of
        Some rateId \<Rightarrow>
          (case find (\<lambda>r. r_id r = rateId) (db_rates db) of
             None \<Rightarrow>
               (Inl (NOT_FOUND (''Rate '' @ rateId @ '' not found for the income to update'')), db)
           | Some rate \<Rightarrow>
               (Inl (INTERNAL_SERVER_ERROR ''apartmentId is not defined''), db))
      | None \<Rightarrow>
     (case (case truthy_num (iq_checkOut incomeData) of
              None \<Rightarrow> False
            | Some checkOut \<Rightarrow>
                isAfter (startOf_day (moment_opt env (iq_checkIn incomeData)))
                        (endOf_day (moment (tz env) (Millis checkOut)))) of
        True \<Rightarrow> (Inl (NOT_FOUND ''Check in date must be before tha check out date''), db)
      | False \<Rightarrow>
          (let updateData =
                 \<lparr>ui_apartmentId = truthy_str (iq_apartmentId incomeData),
                  ui_intermediaryId = truthy_str (iq_intermediaryId incomeData),
                  ui_rateId = None,
                  ui_checkIn = truthy_num (iq_checkIn incomeData),
                  ui_checkOut = truthy_num (iq_checkOut incomeData),
                  ui_clientName = truthy_str (iq_clientName incomeData),
                  ui_clientNif = truthy_str (iq_clientNif incomeData),
                  ui_clientPhone = truthy_str (iq_clientPhone incomeData),
                  ui_numberOfPeople = truthy_num (iq_numberOfPeople incomeData),
                  ui_discount = truthy_num (iq_discount incomeData),
                  ui_observations = truthy_str (iq_observations incomeData)\<rparr>
           in case income_update (tz env) (db_rates db) income updateData of
                Inl e \<Rightarrow> (Inl (INTERNAL_SERVER_ERROR e), db)
              | Inr updatedIncome \<Rightarrow>
                  (Inr updatedIncome,
                   db\<lparr>db_incomes := save_income updatedIncome (db_incomes db)\<rparr>)))))))"

subsection \<open>Dashboard service\<close>

text \<open>
  The dashboard object is the list of its properties, in the order of the object
  literal. The two models are given by what \<^verbatim>\<open>find\<close> has to work on: the documents of
  the collection, or the message of the error it throws. The totals are accumulated
  with \<^verbatim>\<open>+=\<close> from 0, in the order of the documents.
\<close>

datatype jsvalue =
    NumberV number
  | IncomesV "income_doc list"
  | ExpensesV "expense_doc list"

type_synonym js_object = "(string \<times> jsvalue) list"

definition getDashboardData ::
  "env \<Rightarrow> string + income_doc list \<Rightarrow> string + expense_doc list \<Rightarrow> api_error + js_object" where
  "getDashboardData env incomeModel expenseModel =
     (case incomeModel of
        Inl e \<Rightarrow> Inl (INTERNAL_SERVER_ERROR e)
      | Inr incomes \<Rightarrow>
     (case expenseModel of
        Inl e \<Rightarrow> Inl (INTERNAL_SERVER_ERROR e)
      | Inr expenses \<Rightarrow>
          (let totalIncomes =
                 fold (\<lambda>income total. js_add total (i_totalInvoice income)) incomes (Num 0);
               totalVATQuarterlyIncomes =
                 fold (\<lambda>income total. js_add total (i_totalIva income)) incomes (Num 0);
               totalExpenses =
                 fold (\<lambda>expense total. js_add total (e_totalInvoice expense)) expenses (Num 0);
               totalVATQuarterlyExpenses =
                 fold (\<lambda>expense total. js_add total (e_totalIva expense)) expenses (Num 0);
               result = js_sub totalIncomes totalExpenses;
               quarterlyVAT = js_sub totalVATQuarterlyIncomes totalVATQuarterlyExpenses
           in Inr [(''incomes'', IncomesV incomes),
                   (''totalIncomes'', NumberV totalIncomes),
                   (''expenses'', ExpensesV expenses),
                   (''totalExpenses'', NumberV totalExpenses),
                   (''result'', NumberV result),
                   (''currentQuarter'', NumberV (Num (of_int (getCurrentQuarter (currentMonth env))))),
                   (''totalVATQuarterlyIncomes'', NumberV totalVATQuarterlyIncomes),
                   (''totalVATQuarterlyExpenses'', NumberV totalVATQuarterlyExpenses),
                   (''quarterlyVAT'', NumberV quarterlyVAT)])))"

text \<open>
  \<^verbatim>\<open>Model.find\<close> with a range query \<^verbatim>\<open>{$gte: a, $lte: b}\<close> on a numeric field.
  Mongoose casts the two bounds to the type of the field before it sends the query: a
  bound that is \<^verbatim>\<open>NaN\<close> fails the cast and \<^verbatim>\<open>find\<close> throws. The bounds of the
  quarterly dashboard are a start and an end in milliseconds divided by 1000; both are
  whole multiples of 1000, so the quotient is exact.
\<close>

record range_query =
  gte :: "real option"
  lte :: "real option"

definition Model_find ::
  "string + 'a list \<Rightarrow> ('a \<Rightarrow> real) \<Rightarrow> range_query \<Rightarrow> string + 'a list" where
  "Model_find model field query =
     (case gte query of
        None \<Rightarrow> Inl ''Cast to Number failed for value NaN''
      | Some a \<Rightarrow>
     (case lte query of
        None \<Rightarrow> Inl ''Cast to Number failed for value NaN''
      | Some b \<Rightarrow>
     (case model of
        Inl e \<Rightarrow> Inl e
      | Inr docs \<Rightarrow> Inr (filter (\<lambda>d. a \<le> field d \<and> field d \<le> b) docs))))"

definition getDashboardByQuarterData ::
  "env \<Rightarrow> string + income_doc list \<Rightarrow> string + expense_doc list \<Rightarrow> int
     \<Rightarrow> api_error + js_object" where
  "getDashboardByQuarterData env incomeModel expenseModel quarter =
     (let quarterDates = getQuarterDates (currentYear env) None quarter;
          incomesQuery =
            \<lparr>gte = map_option (\<lambda>t. of_int t / 1000) (startOfQuarter quarterDates),
             lte = map_option (\<lambda>t. of_int t / 1000) (endOfQuarter quarterDates)\<rparr>
      in case Model_find incomeModel i_checkIn incomesQuery of
        Inl e \<Rightarrow> Inl (INTERNAL_SERVER_ERROR e)
      | Inr incomes \<Rightarrow>
     (let expensesQuery =
            \<lparr>gte = map_option (\<lambda>t. of_int t / 1000) (startOfQuarter quarterDates),
             lte = map_option (\<lambda>t. of_int t / 1000) (endOfQuarter quarterDates)\<rparr>
      in case Model_find expenseModel e_date expensesQuery of
        Inl e \<Rightarrow> Inl (INTERNAL_SERVER_ERROR e)
      | Inr expenses \<Rightarrow>
          (let totalIncomes =
                 fold (\<lambda>income total. js_add total (i_totalInvoice income)) incomes (Num 0);
               totalVATQuarterlyIncomes =
                 fold (\<lambda>income total. js_add total (i_totalIva income)) incomes (Num 0);
               totalExpenses =
                 fold (\<lambda>expense total. js_add total (e_totalInvoice expense)) expenses (Num 0);
               totalVATQuarterlyExpenses =
                 fold (\<lambda>expense total. js_add total (e_totalIva expense)) expenses (Num 0);
               result = js_sub totalIncomes totalExpenses;
               quarterlyVAT = js_sub totalVATQuarterlyIncomes totalVATQuarterlyExpenses
           in Inr [(''incomes'', IncomesV incomes),
                   (''totalIncomes'', NumberV totalIncomes),
                   (''expenses'', ExpensesV expenses),
                   (''totalExpenses'', NumberV totalExpenses),
                   (''result'', NumberV result),
                   (''currentQuarter'', NumberV (Num (of_int (getCurrentQuarter (currentMonth env))))),
                   (''totalVATQuarterlyIncomes'', NumberV totalVATQuarterlyIncomes),
                   (''totalVATQuarterlyExpenses'', NumberV totalVATQuarterlyExpenses),
                   (''quarterlyVAT'', NumberV quarterlyVAT)])))"

section \<open>Readings of the specification and sample data\<close>

text \<open>
  The totals in the words of the specification, in the arithmetic of the language, with
  the operations in the order in which the specification writes them: the VAT is taken
  on the amount, and for an income on the amount after the discount.
\<close>

definition spec_expenseTotals :: "real \<Rightarrow> real \<Rightarrow> number \<times> number" where
  "spec_expenseTotals amount ivaPct =
     (let totalIva = js_div (js_mul (Num amount) (Num ivaPct)) (Num 100)
      in (totalIva, js_add (Num amount) totalIva))"

definition spec_incomeTotals ::
  "number \<Rightarrow> number \<Rightarrow> number \<Rightarrow> number \<Rightarrow> number \<Rightarrow> number \<times> number" where
  "spec_incomeTotals pricePerNight people nights discountPct ivaPct =
     (let base = js_mul (js_mul pricePerNight people) nights;
          discounted = js_mul base (js_sub (Num 1) (js_div discountPct (Num 100)));
          totalIva = js_div (js_mul discounted ivaPct) (Num 100)
      in (totalIva, js_add discounted totalIva))"

text \<open>The same formulas for an income on exact reals.\<close>

definition exact_incomeTotals :: "real \<Rightarrow> real \<Rightarrow> real \<Rightarrow> real \<Rightarrow> real \<Rightarrow> real \<times> real" where
  "exact_incomeTotals pricePerNight people nights discountPct ivaPct =
     (let base = pricePerNight * people * nights;
          discounted = base * (1 - discountPct / 100);
          totalIva = discounted * ivaPct / 100
      in (totalIva, discounted + totalIva))"

text \<open>
  The totals of an income with the operations in another order: the amount of the
  discount is the base times the hundredth of the discount and is subtracted from the
  base, and the VAT is the discounted amount times the hundredth of the VAT rate.
\<close>

definition discount_then_vat ::
  "number \<Rightarrow> number \<Rightarrow> number \<Rightarrow> number \<Rightarrow> number \<Rightarrow> number \<times> number" where
  "discount_then_vat pricePerNight people nights discountPct ivaPct =
     (let base = js_mul (js_mul pricePerNight people) nights;
          discountAmount = js_mul base (js_div discountPct (Num 100));
          discounted = js_sub base discountAmount;
          totalIva = js_mul discounted (js_div ivaPct (Num 100))
      in (totalIva, js_add discounted totalIva))"

text \<open>A real number that is a double: rounding leaves it as it is.\<close>

definition is_double :: "real \<Rightarrow> bool" where
  "is_double x = (round_double x = Num x)"

text \<open>
  A stored timestamp, in seconds, lies in the window \<open>[start, end]\<close>, in milliseconds,
  both bounds included.
\<close>

definition spec_in_window :: "int \<Rightarrow> int \<Rightarrow> real \<Rightarrow> bool" where
  "spec_in_window start end t = (of_int start \<le> 1000 * t \<and> 1000 * t \<le> of_int end)"

text \<open>
  The sums a settlement reports for the records it lists: each total is the sum of the
  fields in the order of the list, every addition rounded.
\<close>

definition spec_sum :: "number list \<Rightarrow> number" where
  "spec_sum xs = foldl js_add (Num 0) xs"

definition spec_settlement :: "js_object \<Rightarrow> income_doc list \<Rightarrow> expense_doc list \<Rightarrow> bool" where
  "spec_settlement d is es =
     (let totalIncomes = spec_sum (map i_totalInvoice is);
          totalExpenses = spec_sum (map e_totalInvoice es);
          vatIncomes = spec_sum (map i_totalIva is);
          vatExpenses = spec_sum (map e_totalIva es)
      in map_of d ''incomes'' = Some (IncomesV is)
       \<and> map_of d ''expenses'' = Some (ExpensesV es)
       \<and> map_of d ''totalIncomes'' = Some (NumberV totalIncomes)
       \<and> map_of d ''totalExpenses'' = Some (NumberV totalExpenses)
       \<and> map_of d ''totalVATQuarterlyIncomes'' = Some (NumberV vatIncomes)
       \<and> map_of d ''totalVATQuarterlyExpenses'' = Some (NumberV vatExpenses)
       \<and> map_of d ''result'' = Some (NumberV (js_sub totalIncomes totalExpenses))
       \<and> map_of d ''quarterlyVAT'' = Some (NumberV (js_sub vatIncomes vatExpenses)))"

text \<open>
  Sample data: a host in UTC, as the container image of the repository runs, and a host
  two hours ahead of UTC, as Europe/Madrid is in summer; a store with one apartment, one
  intermediary and one rate of 50 per night at 21 percent VAT.
\<close>

definition zone_utc :: zone where
  "zone_utc = (\<lambda>t. 0)"

definition zone_plus_two :: zone where
  "zone_plus_two = (\<lambda>t. 7200000)"

definition sample_env :: env where
  "sample_env = \<lparr>tz = zone_utc, now = 1720000000000, currentYear = 2024, currentMonth = 6\<rparr>"

definition sample_rate :: rate_doc where
  "sample_rate = \<lparr>r_id = ''r1'', r_apartmentId = ''a1'', r_name = ''base'',
                   r_pricePerNight = 50, r_iva = 21\<rparr>"

definition sample_db :: db where
  "sample_db = \<lparr>db_apartments = [''a1''], db_intermediaries = [''m1''],
                 db_rates = [sample_rate], db_incomes = [], db_expenses = []\<rparr>"

text \<open>
  A request for a stay whose check-out (20 June 2024, in seconds) is five days before
  its check-in (25 June 2024).
\<close>

definition reversed_stay :: income_request where
  "reversed_stay =
     \<lparr>iq_apartmentId = Some ''a1'', iq_intermediaryId = Some ''m1'', iq_rateId = Some ''r1'',
      iq_checkIn = Some 1719356014, iq_checkOut = Some 1718920414,
      iq_clientName = Some ''Ana'', iq_clientNif = Some ''00000000T'',
      iq_clientPhone = Some ''600000000'', iq_numberOfPeople = Some 2,
      iq_discount = Some 10, iq_observations = None\<rparr>"

text \<open>
  A stored income of three nights with the totals the schema computes for it, which
  print as 56.699999999999996 and 326.7; the empty requests.
\<close>

definition stored_income :: income_doc where
  "stored_income =
     \<lparr>i_id = ''i1'', i_apartmentId = ''a1'', i_intermediaryId = ''m1'', i_rateId = ''r1'',
      i_checkIn = 1718920414, i_checkOut = 1719179614, i_nights = 3,
      i_clientName = ''Ana'', i_clientNif = ''00000000T'', i_clientPhone = ''600000000'',
      i_numberOfPeople = 2, i_discount = 10,
      i_totalIva = Num (7979815589747097 / 140737488355328),
      i_totalInvoice = Num (5747367180710707 / 17592186044416), i_observations = None\<rparr>"

definition empty_income_request :: income_request where
  "empty_income_request =
     \<lparr>iq_apartmentId = None, iq_intermediaryId = None, iq_rateId = None,
      iq_checkIn = None, iq_checkOut = None, iq_clientName = None, iq_clientNif = None,
      iq_clientPhone = None, iq_numberOfPeople = None, iq_discount = None,
      iq_observations = None\<rparr>"

definition empty_expense_request :: expense_request where
  "empty_expense_request =
     \<lparr>q_concept = None, q_apartmentId = None, q_date = None, q_providerNif = None,
      q_expense = None, q_iva = None, q_paid = None\<rparr>"

definition stored_expense :: expense_doc where
  "stored_expense =
     \<lparr>e_id = ''e1'', e_apartmentId = ''a1'', e_concept = ''cleaning'', e_date = 1718920414,
      e_providerNif = Some ''B00000000'', e_expense = 100, e_iva = 21, e_totalIva = Num 21,
      e_totalInvoice = Num 121, e_paid = True\<rparr>"

text \<open>
  Two abbreviations for the income schema: the document after the assignments of
  \<^verbatim>\<open>update\<close>, and the nights that both schema methods compute from the stored
  check-in and check-out.
\<close>

definition income_assigned :: "income_doc \<Rightarrow> income_updateData \<Rightarrow> income_doc" where
  "income_assigned this data =
     this\<lparr>i_apartmentId := own (ui_apartmentId data) (i_apartmentId this),
          i_intermediaryId := own (ui_intermediaryId data) (i_intermediaryId this),
          i_rateId := own (ui_rateId data) (i_rateId this),
          i_checkIn := own (ui_checkIn data) (i_checkIn this),
          i_checkOut := own (ui_checkOut data) (i_checkOut this),
          i_clientName := own (ui_clientName data) (i_clientName this),
          i_clientNif := own (ui_clientNif data) (i_clientNif this),
          i_clientPhone := own (ui_clientPhone data) (i_clientPhone this),
          i_numberOfPeople := own (ui_numberOfPeople data) (i_numberOfPeople this),
          i_discount := own (ui_discount data) (i_discount this),
          i_observations :=
            (case ui_observations data of None \<Rightarrow> i_observations this | Some v \<Rightarrow> Some v)\<rparr>"

definition income_nights :: "zone \<Rightarrow> real \<Rightarrow> real \<Rightarrow> int" where
  "income_nights z checkIn checkOut =
     calculateDaysDifference z
       (MomentObject
          (startOf_day (moment z (Millis (nearest_double (checkIn * 1000))))))
       (MomentObject
          (endOf_day (moment z (Millis (nearest_double (checkOut * 1000))))))"

text \<open>A stay of three nights for two people at the sample rate, with 10 percent discount.\<close>

definition three_nights :: income_input where
  "three_nights =
     \<lparr>n_apartmentId = ''a1'', n_intermediaryId = ''m1'', n_rateId = ''r1'',
      n_checkIn = 1718920414, n_checkOut = 1719179614, n_clientName = ''Ana'',
      n_clientNif = ''00000000T'', n_clientPhone = ''600000000'', n_numberOfPeople = 2,
      n_discount = Some 10, n_observations = None\<rparr>"

definition sample_expense :: expense_input where
  "sample_expense =
     \<lparr>x_apartmentId = ''a1'', x_concept = ''cleaning'', x_date = 1718920414,
      x_providerNif = ''B00000000'', x_expense = 100, x_iva = 21, x_paid = None\<rparr>"

text \<open>A request in which every falsy value has been taken out.\<close>

definition absent_if_falsy_expense :: "expense_request \<Rightarrow> expense_request" where
  "absent_if_falsy_expense req =
     \<lparr>q_concept = truthy_str (q_concept req),
      q_apartmentId = truthy_str (q_apartmentId req),
      q_date = truthy_num (q_date req),
      q_providerNif = truthy_str (q_providerNif req),
      q_expense = truthy_num (q_expense req),
      q_iva = truthy_num (q_iva req),
      q_paid = truthy_bool (q_paid req)\<rparr>"

definition absent_if_falsy_income :: "income_request \<Rightarrow> income_request" where
  "absent_if_falsy_income req =
     \<lparr>iq_apartmentId = truthy_str (iq_apartmentId req),
      iq_intermediaryId = truthy_str (iq_intermediaryId req),
      iq_rateId = truthy_str (iq_rateId req),
      iq_checkIn = truthy_num (iq_checkIn req),
      iq_checkOut = truthy_num (iq_checkOut req),
      iq_clientName = truthy_str (iq_clientName req),
      iq_clientNif = truthy_str (iq_clientNif req),
      iq_clientPhone = truthy_str (iq_clientPhone req),
      iq_numberOfPeople = truthy_num (iq_numberOfPeople req),
      iq_discount = truthy_num (iq_discount req),
      iq_observations = truthy_str (iq_observations req)\<rparr>"

text \<open>
  Records around the first quarter of 2024, whose window is 1704067200000 to
  1711929599000: incomes that check in at the start, at the end, one millisecond before
  the start, one millisecond after the end, and on the day before the start with a
  check-out inside the window; expenses dated at the start, at the end and one
  millisecond outside either bound.
\<close>

definition window_incomes :: "income_doc list" where
  "window_incomes =
     [stored_income\<lparr>i_id := ''at start'', i_checkIn := 1704067200, i_checkOut := 1704240000\<rparr>,
      stored_income\<lparr>i_id := ''at end'', i_checkIn := 1711929599, i_checkOut := 1712102400\<rparr>,
      stored_income\<lparr>i_id := ''before'', i_checkIn := 1704067199999 / 1000,
                     i_checkOut := 1704240000\<rparr>,
      stored_income\<lparr>i_id := ''after'', i_checkIn := 1711929599001 / 1000,
                     i_checkOut := 1712102400\<rparr>,
      stored_income\<lparr>i_id := ''eve'', i_checkIn := 1703980800, i_checkOut := 1704153600\<rparr>]"

definition window_expenses :: "expense_doc list" where
  "window_expenses =
     [stored_expense\<lparr>e_id := ''at start'', e_date := 1704067200\<rparr>,
      stored_expense\<lparr>e_id := ''at end'', e_date := 1711929599\<rparr>,
      stored_expense\<lparr>e_id := ''before'', e_date := 1704067199999 / 1000\<rparr>,
      stored_expense\<lparr>e_id := ''after'', e_date := 1711929599001 / 1000\<rparr>]"

text \<open>
  An update of the stored expense that names a new concept and gives 0 for the VAT and
  \<^verbatim>\<open>false\<close> for the paid flag; an update of the stored income that names a new
  client and gives 0 for the discount and for the check-in.
\<close>

definition falsy_expense_update :: expense_request where
  "falsy_expense_update =
     empty_expense_request\<lparr>q_concept := Some ''repairs'', q_iva := Some 0, q_paid := Some False\<rparr>"

definition falsy_income_update :: income_request where
  "falsy_income_update =
     empty_income_request\<lparr>iq_clientName := Some ''Eva'', iq_discount := Some 0,
                           iq_checkIn := Some 0\<rparr>"

text \<open>
  Two updates of the stored income with the same check-out: one gives 0 for the
  check-in, the other gives no check-in.
\<close>

definition checkin_zero_update :: income_request where
  "checkin_zero_update =
     empty_income_request\<lparr>iq_checkIn := Some 0, iq_checkOut := Some 1719179614\<rparr>"

definition checkout_only_update :: income_request where
  "checkout_only_update = empty_income_request\<lparr>iq_checkOut := Some 1719179614\<rparr>"

definition expense_db :: db where
  "expense_db = sample_db\<lparr>db_expenses := [stored_expense]\<rparr>"

definition income_db :: db where
  "income_db = sample_db\<lparr>db_incomes := [stored_income]\<rparr>"

section \<open>Simplification set-up\<close>

text \<open>
  The equations of \<open>moment\<close> are unfolded on request only, so that evaluated instances of
  the date functions can be stated on \<open>moment\<close> itself.
\<close>

declare moment.simps [simp del]


text \<open>The rounding function is evaluated on literals by unfolding these equations.\<close>

lemma pow2_floor_numeral:
  "pow2_floor (numeral k) a =
     (if 2 \<le> a then 2 * pow2_floor (pred_numeral k) (a / 2)
      else if a < 1 then pow2_floor (pred_numeral k) (a * 2) / 2
      else 1)"
  by (simp add: numeral_eq_Suc)

lemmas ieee_eval = round_double_def nearest_double_def ulp_def pow2_floor_numeral
  round_ties_even_def Let_def js_sub_def infinity_signed_def

section \<open>Rounding\<close>

text \<open>
  The search of \<open>pow2_floor\<close> finds the power of two it looks for whenever \<open>n\<close> doublings
  or halvings can reach it, and then the rounded number is at most half a unit in the
  last place away from the exact one.
\<close>

lemma pow2_floor_bounds:
  "1 / 2 ^ n \<le> a \<Longrightarrow> a < 2 ^ (n + 1) \<Longrightarrow> pow2_floor n a \<le> a \<and> a < 2 * pow2_floor n a"
proof (induction n arbitrary: a)
  case 0
  then show ?case by simp
next
  case (Suc n)
  show ?case
  proof (cases "2 \<le> a")
    case True
    have "1 / 2 ^ n \<le> (1::real)" by (simp add: field_simps)
    moreover have "1 \<le> a / 2" using True by simp
    ultimately have l: "1 / 2 ^ n \<le> a / 2" by linarith
    have u: "a / 2 < 2 ^ (n + 1)" using Suc.prems(2) by simp
    from Suc.IH [OF l u] True show ?thesis by simp
  next
    case False
    show ?thesis
    proof (cases "a < 1")
      case True
      have l: "1 / 2 ^ n \<le> a * 2" using Suc.prems(1) by (simp add: field_simps)
      have "(2::real) \<le> 2 ^ (n + 1)" by simp
      with True have u: "a * 2 < 2 ^ (n + 1)" by linarith
      from Suc.IH [OF l u] True show ?thesis by simp
    next
      case b: False
      with False show ?thesis by simp
    qed
  qed
qed

lemma pow2_floor_pos: "0 < pow2_floor n a"
  by (induction n arbitrary: a) simp_all

lemma ulp_pos: "0 < ulp a"
  by (simp add: ulp_def pow2_floor_pos max_def)

lemma round_ties_even_near: "\<bar>of_int (round_ties_even m) - m\<bar> \<le> (1 / 2 :: real)"
  unfolding round_ties_even_def Let_def by (auto simp add: abs_if) linarith+

lemma nearest_double_near: "\<bar>nearest_double x - x\<bar> \<le> ulp \<bar>x\<bar> / 2"
proof (cases "x = 0")
  case True
  then show ?thesis using ulp_pos [of 0] by (simp add: nearest_double_def)
next
  case False
  define u where "u = ulp \<bar>x\<bar>"
  define m where "m = \<bar>x\<bar> / u"
  have u: "0 < u" unfolding u_def by (rule ulp_pos)
  have x: "\<bar>x\<bar> = m * u" using u by (simp add: m_def)
  have "\<bar>of_int (round_ties_even m) * u - m * u\<bar> = \<bar>of_int (round_ties_even m) - m\<bar> * u"
    using u by (simp add: left_diff_distrib [symmetric] abs_mult)
  also have "\<dots> \<le> 1 / 2 * u"
    using round_ties_even_near [of m] u by (intro mult_right_mono) simp_all
  finally have e: "\<bar>of_int (round_ties_even m) * u - \<bar>x\<bar>\<bar> \<le> u / 2" by (simp add: x)
  have "nearest_double x - x = sgn x * (of_int (round_ties_even m) * u - \<bar>x\<bar>)"
    using False by (simp add: nearest_double_def m_def u_def right_diff_distrib sgn_mult_abs)
  then have "\<bar>nearest_double x - x\<bar> = \<bar>of_int (round_ties_even m) * u - \<bar>x\<bar>\<bar>"
    using False by (simp add: abs_mult abs_sgn_eq)
  with e show ?thesis by (simp add: u_def)
qed

section \<open>The calendar formula against the calendar counted day by day\<close>

lemma div_step_gen:
  fixes x d :: int
  assumes "0 < d"
  shows "(x + 1) div d = x div d + (if d dvd (x + 1) then 1 else 0)"
proof (cases "x mod d = d - 1")
  case True
  have "x = d * (x div d) + (d - 1)"
    using True mult_div_mod_eq [of d x] by simp
  then have "x + 1 = d * (x div d + 1) + 0"
    by (simp add: algebra_simps)
  then have q: "(x + 1) div d = x div d + 1" and r: "(x + 1) mod d = 0"
    using assms by (metis int_div_pos_eq order_refl, metis int_mod_pos_eq order_refl)
  from r have "d dvd (x + 1)" by (simp add: dvd_eq_mod_eq_0)
  with q show ?thesis by simp
next
  case False
  have b: "0 \<le> x mod d" "x mod d < d" using assms by simp_all
  with False have lt: "0 \<le> x mod d + 1" "x mod d + 1 < d" by simp_all
  have "x + 1 = d * (x div d) + (x mod d + 1)"
    using mult_div_mod_eq [of d x] by (simp add: algebra_simps)
  then have q: "(x + 1) div d = x div d" and r: "(x + 1) mod d = x mod d + 1"
    using lt by (metis int_div_pos_eq, metis int_mod_pos_eq)
  from r b have "\<not> d dvd (x + 1)" by (simp add: dvd_eq_mod_eq_0)
  with q show ?thesis by simp
qed


lemma DaysInYear_spec: "DaysInYear y = spec_days_in_year y"
  unfolding DaysInYear_def spec_days_in_year_def spec_leap_year_def
  by (simp add: dvd_eq_mod_eq_0)

lemma InLeapYear_spec: "InLeapYear y = spec_leap_year y"
  unfolding InLeapYear_def DaysInYear_spec spec_days_in_year_def by simp

lemma div4_step: "(y + 1 - 1969) div 4 = (y - 1969) div 4 + (if 4 dvd y then 1 else 0)" for y :: int
proof -
  have "(4::int) dvd 1968" by simp
  then have "4 dvd (y - 1968) \<longleftrightarrow> 4 dvd y" by (rule dvd_diff_left_iff)
  moreover have "y + 1 - 1969 = (y - 1969) + 1" "y - 1969 + 1 = y - 1968" by simp_all
  ultimately show ?thesis using div_step_gen [of 4 "y - 1969"] by simp
qed

lemma div100_step: "(y + 1 - 1901) div 100 = (y - 1901) div 100 + (if 100 dvd y then 1 else 0)" for y :: int
proof -
  have "(100::int) dvd 1900" by simp
  then have "100 dvd (y - 1900) \<longleftrightarrow> 100 dvd y" by (rule dvd_diff_left_iff)
  moreover have "y + 1 - 1901 = (y - 1901) + 1" "y - 1901 + 1 = y - 1900" by simp_all
  ultimately show ?thesis using div_step_gen [of 100 "y - 1901"] by simp
qed

lemma div400_step: "(y + 1 - 1601) div 400 = (y - 1601) div 400 + (if 400 dvd y then 1 else 0)" for y :: int
proof -
  have "(400::int) dvd 1600" by simp
  then have "400 dvd (y - 1600) \<longleftrightarrow> 400 dvd y" by (rule dvd_diff_left_iff)
  moreover have "y + 1 - 1601 = (y - 1601) + 1" "y - 1601 + 1 = y - 1600" by simp_all
  ultimately show ?thesis using div_step_gen [of 400 "y - 1601"] by simp
qed

lemma dvd_400_100: "400 dvd y \<Longrightarrow> 100 dvd y" for y :: int
  using dvd_trans [of 100 400 y] by simp

lemma dvd_100_4: "100 dvd y \<Longrightarrow> 4 dvd y" for y :: int
  using dvd_trans [of 4 100 y] by simp

lemma DayFromYear_step: "DayFromYear (y + 1) = DayFromYear y + spec_days_in_year y"
proof -
  have "DayFromYear (y + 1) = DayFromYear y + 365 + (if 4 dvd y then 1 else 0)
          - (if 100 dvd y then 1 else 0) + (if 400 dvd y then 1 else 0)"
    unfolding DayFromYear_def div4_step div100_step div400_step by (simp add: algebra_simps)
  also have "\<dots> = DayFromYear y + spec_days_in_year y"
    unfolding spec_days_in_year_def spec_leap_year_def
    using dvd_400_100 [of y] dvd_100_4 [of y]
    by (cases "4 dvd y"; cases "100 dvd y"; cases "400 dvd y"; simp)
  finally show ?thesis .
qed

lemma DayFromYear_forward: "DayFromYear (1970 + int n) = spec_days_forward n"
proof (induction n)
  case 0
  show ?case by (simp add: DayFromYear_def)
next
  case (Suc n)
  have "DayFromYear (1970 + int (Suc n)) = DayFromYear ((1970 + int n) + 1)"
    by (simp add: algebra_simps)
  then show ?case using Suc DayFromYear_step [of "1970 + int n"] by simp
qed

lemma DayFromYear_backward: "DayFromYear (1970 - int n) = - spec_days_backward n"
proof (induction n)
  case 0
  show ?case by (simp add: DayFromYear_def)
next
  case (Suc n)
  have "1970 - int n = (1969 - int n) + 1" "1970 - int (Suc n) = 1969 - int n"
    by simp_all
  then show ?case using Suc DayFromYear_step [of "1969 - int n"] by simp
qed

lemma DayFromYear_spec: "DayFromYear y = spec_first_day_of_year y"
proof (cases "1970 \<le> y")
  case True
  then have "y = 1970 + int (nat (y - 1970))" by simp
  then show ?thesis
    using True DayFromYear_forward [of "nat (y - 1970)"] by (simp add: spec_first_day_of_year_def)
next
  case False
  then have "y = 1970 - int (nat (1970 - y))" by simp
  then show ?thesis
    using False DayFromYear_backward [of "nat (1970 - y)"] by (simp add: spec_first_day_of_year_def)
qed

lemma spec_days_before_month_12: "spec_days_before_month y 12 = spec_days_in_year y"
  by (simp add: eval_nat_numeral spec_days_in_month_def spec_days_in_year_def)

lemma firstDayOfMonth_spec:
  assumes "m \<in> {0, 1, 2, 3, 4, 5, 6, 7, 8, 9, 10, 11}"
  shows "firstDayOfMonth (InLeapYear y) m = spec_days_before_month y (nat m)"
  using assms unfolding InLeapYear_spec
  by (auto simp add: firstDayOfMonth_def eval_nat_numeral spec_days_in_month_def)

lemma month_range: "0 \<le> m \<Longrightarrow> m \<le> 11 \<Longrightarrow> m \<in> {0, 1, 2, 3, 4, 5, 6, 7, 8, 9, 10, 11}" for m :: int
  by simp arith

lemma utcInstant_spec:
  assumes "0 \<le> m" "m \<le> 11"
  shows "utcInstant y m 1 = spec_first_instant_of_month y m"
proof -
  have "m div 12 = 0" "m mod 12 = m" using assms by simp_all
  then show ?thesis
    using firstDayOfMonth_spec [OF month_range [OF assms], of y]
    by (simp add: utcInstant_def MakeDay_def msPerDay_def spec_first_instant_of_month_def
        DayFromYear_spec)
qed

lemma utcInstant_next:
  assumes "0 \<le> m" "m \<le> 11"
  shows "utcInstant y (m + 1) 1 =
         spec_first_instant_of_month y m + spec_days_in_month y (nat m) * 86400000"
proof (cases "m = 11")
  case True
  have "utcInstant y 12 1 = DayFromYear (y + 1) * 86400000"
    by (simp add: utcInstant_def MakeDay_def msPerDay_def firstDayOfMonth_def)
  also have "\<dots> = (spec_first_day_of_year y + spec_days_before_month y 12) * 86400000"
    using DayFromYear_step [of y]
    by (simp add: spec_days_before_month_12 DayFromYear_spec algebra_simps)
  also have "\<dots> = spec_first_instant_of_month y 11 + spec_days_in_month y 11 * 86400000"
    by (simp add: spec_first_instant_of_month_def eval_nat_numeral algebra_simps)
  finally show ?thesis using True by simp
next
  case False
  with assms have r: "0 \<le> m + 1" "m + 1 \<le> 11" by simp_all
  have "nat (m + 1) = Suc (nat m)" using assms by simp
  then show ?thesis
    using utcInstant_spec [OF r, of y]
    by (simp add: spec_first_instant_of_month_def algebra_simps)
qed

lemma endOf_month_spec:
  assumes "0 \<le> m" "m \<le> 11"
  shows "utcInstant y (m + 1) 1 - 1 = spec_last_millisecond_of_month y m"
  using utcInstant_next [OF assms, of y] by (simp add: spec_last_millisecond_of_month_def)


lemma spec_days_in_month_pos: "0 < spec_days_in_month y m"
  by (simp add: spec_days_in_month_def)

lemma unix_of_day_start: "(k * 86400000) div 1000 * 1000 = k * 86400000" for k :: int
proof -
  have "k * 86400000 = (k * 86400) * 1000" by simp
  then show ?thesis by simp
qed

lemma unix_of_day_end: "(k * 86400000 - 1) div 1000 * 1000 = k * 86400000 - 1000" for k :: int
proof -
  have "k * 86400000 - 1 = 1000 * (k * 86400 - 1) + 999" by simp
  then have "(k * 86400000 - 1) div 1000 = k * 86400 - 1"
    using int_div_pos_eq [of "k * 86400000 - 1" 1000 "k * 86400 - 1" 999] by simp
  then show ?thesis by simp
qed

text \<open>
  The years whose twelve months, and the first instant after them, lie within the range
  of a \<^verbatim>\<open>Date\<close>: the range starts on 20 April of the year -271821 and ends on
  13 September of the year 275760.
\<close>

lemma spec_days_in_year_nonneg: "0 \<le> spec_days_in_year y"
  by (simp add: spec_days_in_year_def)

lemma DayFromYear_mono_nat: "DayFromYear y \<le> DayFromYear (y + int n)"
proof (induction n)
  case 0
  show ?case by simp
next
  case (Suc n)
  have e: "y + int (Suc n) = (y + int n) + 1" by simp
  have "DayFromYear (y + int (Suc n)) = DayFromYear (y + int n) + spec_days_in_year (y + int n)"
    unfolding e by (rule DayFromYear_step)
  then show ?case using Suc spec_days_in_year_nonneg [of "y + int n"] by linarith
qed

lemma DayFromYear_mono: "y \<le> y' \<Longrightarrow> DayFromYear y \<le> DayFromYear y'"
  using DayFromYear_mono_nat [of y "nat (y' - y)"] by simp

lemma DayFromYear_ends:
  "DayFromYear (- 271820) = - 99999744" "DayFromYear 275759 = 99999379"
  "DayFromYear 275760 = 99999744"
  by (simp_all add: DayFromYear_def)

lemma firstDayOfMonth_bounds: "0 \<le> firstDayOfMonth l m \<and> firstDayOfMonth l m \<le> 335"
  by (simp add: firstDayOfMonth_def Let_def)

lemma MakeDay_range:
  assumes "- 271820 \<le> y" "y \<le> 275759" "0 \<le> m" "m \<le> 12"
  shows "- 99999744 \<le> MakeDay y m 1 \<and> MakeDay y m 1 \<le> 99999744"
proof (cases "m = 12")
  case True
  have "MakeDay y 12 1 = DayFromYear (y + 1)"
    by (simp add: MakeDay_def firstDayOfMonth_def)
  moreover have "DayFromYear (- 271820) \<le> DayFromYear (y + 1)"
    using assms by (intro DayFromYear_mono) simp
  moreover have "DayFromYear (y + 1) \<le> DayFromYear 275760"
    using assms by (intro DayFromYear_mono) simp
  ultimately show ?thesis using True by (simp add: DayFromYear_ends)
next
  case False
  with assms have "m div 12 = 0" "m mod 12 = m" by simp_all
  then have "MakeDay y m 1 = DayFromYear y + firstDayOfMonth (InLeapYear y) m"
    by (simp add: MakeDay_def)
  moreover have "DayFromYear (- 271820) \<le> DayFromYear y" "DayFromYear y \<le> DayFromYear 275759"
    using assms by (simp_all add: DayFromYear_mono)
  ultimately show ?thesis
    using firstDayOfMonth_bounds [of "InLeapYear y" m] by (simp add: DayFromYear_ends)
qed

lemma utcInstant_range:
  assumes "- 271820 \<le> y" "y \<le> 275759" "0 \<le> m" "m \<le> 12"
  shows "- 8639977881600000 \<le> utcInstant y m 1 \<and> utcInstant y m 1 \<le> 8639977881600000"
  using MakeDay_range [OF assms] by (simp add: utcInstant_def msPerDay_def)

lemma utcStartOfDate_in_range:
  assumes "- 271820 \<le> y" "y \<le> 275759" "0 \<le> m" "m \<le> 12"
  shows "utcStartOfDate y m 1 = Some (utcInstant y m 1)"
    and "TimeClip (utcInstant y m 1 - 1) = Some (utcInstant y m 1 - 1)"
  using utcInstant_range [OF assms] by (simp_all add: utcStartOfDate_def TimeClip_def)

lemma quarter_start_spec:
  assumes y: "- 271820 \<le> y" "y \<le> 275759" and m: "0 \<le> m" "m \<le> 11"
  shows "(case moment_tz_UTC y m of
            None \<Rightarrow> None
          | Some mo \<Rightarrow> map_option (\<lambda>mo. unix mo * 1000) (startOf_month mo))
         = Some (spec_first_instant_of_month y m)"
proof -
  have "m \<le> 12" using m by simp
  note r = utcStartOfDate_in_range(1) [OF y m(1) this]
  have "utcInstant y m 1 div 1000 * 1000 = utcInstant y m 1"
    unfolding utcInstant_def msPerDay_def by (rule unix_of_day_start)
  then show ?thesis
    using m utcInstant_spec [OF m, of y]
    by (simp add: moment_tz_UTC_def unix_def startOf_month_def r)
qed

lemma quarter_end_spec:
  assumes y: "- 271820 \<le> y" "y \<le> 275759" and m: "0 \<le> m" "m \<le> 11"
  shows "(case moment_tz_UTC y m of
            None \<Rightarrow> None
          | Some mo \<Rightarrow> map_option (\<lambda>mo. unix mo * 1000) (endOf_month mo))
         = Some (spec_last_millisecond_of_month y m - 999)"
proof -
  have m12: "m \<le> 12" "0 \<le> m + 1" "m + 1 \<le> 12" using m by simp_all
  note r = utcStartOfDate_in_range(1) [OF y m(1) m12(1)]
  note r' = utcStartOfDate_in_range [OF y m12(2) m12(3)]
  have "(case moment_tz_UTC y m of
            None \<Rightarrow> None
          | Some mo \<Rightarrow> map_option (\<lambda>mo. unix mo * 1000) (endOf_month mo))
        = Some ((utcInstant y (m + 1) 1 - 1) div 1000 * 1000)"
    using m by (simp add: moment_tz_UTC_def unix_def endOf_month_def r r')
  also have "(utcInstant y (m + 1) 1 - 1) div 1000 * 1000 = utcInstant y (m + 1) 1 - 1000"
    unfolding utcInstant_def msPerDay_def by (rule unix_of_day_end)
  also have "\<dots> = spec_last_millisecond_of_month y m - 999"
    using endOf_month_spec [OF m, of y] by simp
  finally show ?thesis .
qed

lemma spec_month_succ:
  assumes "0 \<le> m" "m < 11"
  shows "spec_last_millisecond_of_month y m + 1 = spec_first_instant_of_month y (m + 1)"
proof -
  have "nat (m + 1) = Suc (nat m)" using assms by simp
  then show ?thesis
    by (simp add: spec_last_millisecond_of_month_def spec_first_instant_of_month_def algebra_simps)
qed

lemma spec_year_succ:
  "spec_last_millisecond_of_month y 11 + 1 = spec_first_instant_of_month (y + 1) 0"
proof -
  have a: "(0::int) \<le> 11" "(11::int) \<le> 11" "(0::int) \<le> 0" "(0::int) \<le> 11" by simp_all
  have "spec_last_millisecond_of_month y 11 + 1 = utcInstant y 12 1"
    using endOf_month_spec [OF a(1) a(2), of y] by simp
  also have "\<dots> = utcInstant (y + 1) 0 1"
    by (simp add: utcInstant_def MakeDay_def)
  also have "\<dots> = spec_first_instant_of_month (y + 1) 0"
    by (rule utcInstant_spec) simp_all
  finally show ?thesis .
qed

lemma quarter_cases:
  assumes "q \<in> {1, 2, 3, 4}"
  obtains "q = (1::int)" | "q = 2" | "q = 3" | "q = 4"
  using assms by auto

lemma resolved_year:
  "y \<noteq> 0 \<Longrightarrow> getQuarterDates cy (Some y) q = getQuarterDates y None q"
  "getQuarterDates cy (Some 0) q = getQuarterDates cy None q"
  by (simp_all add: getQuarterDates_def)

lemma getQuarterDates_spec:
  assumes "q \<in> {1, 2, 3, 4}" and y: "- 271820 \<le> cy" "cy \<le> 275759"
  shows "getQuarterDates cy None q =
           \<lparr>startOfQuarter = Some (spec_first_instant_of_month cy ((q - 1) * 3)),
            endOfQuarter = Some (spec_last_millisecond_of_month cy ((q - 1) * 3 + 2) - 999)\<rparr>"
proof -
  have m: "0 \<le> (q - 1) * 3" "(q - 1) * 3 \<le> 11" "0 \<le> (q - 1) * 3 + 2" "(q - 1) * 3 + 2 \<le> 11"
    using assms(1) by auto
  show ?thesis
    unfolding getQuarterDates_def Let_def
    using quarter_start_spec [OF y m(1) m(2)] quarter_end_spec [OF y m(3) m(4)]
    by simp
qed

lemma getQuarterDates_no_quarter:
  assumes "q < 1 \<or> 4 < q"
  shows "getQuarterDates cy year q = \<lparr>startOfQuarter = None, endOfQuarter = None\<rparr>"
  using assms by (auto simp add: getQuarterDates_def moment_tz_UTC_def Let_def)

lemma quarter_start_before_end:
  assumes q: "q \<in> {1, 2, 3, 4}"
  shows "spec_first_instant_of_month y ((q - 1) * 3)
         < spec_last_millisecond_of_month y ((q - 1) * 3 + 2) - 999"
proof -
  have m: "0 \<le> (q - 1) * 3" "(q - 1) * 3 + 2 \<le> 11" using q by auto
  define k where "k = nat ((q - 1) * 3)"
  have n: "nat ((q - 1) * 3) = k" "nat ((q - 1) * 3 + 2) = Suc (Suc k)"
    using m by (simp_all add: k_def)
  have "0 < spec_days_in_month y k + spec_days_in_month y (Suc k)
           + spec_days_in_month y (Suc (Suc k)) - 1"
    using spec_days_in_month_pos [of y k] spec_days_in_month_pos [of y "Suc k"]
      spec_days_in_month_pos [of y "Suc (Suc k)"]
    by linarith
  then show ?thesis
    unfolding spec_last_millisecond_of_month_def spec_first_instant_of_month_def n
    by simp
qed

lemma InLeapYear_2024: "InLeapYear 2024" "\<not> InLeapYear 2025"
  by (simp_all add: InLeapYear_def DaysInYear_def)

lemma DayFromYear_2024: "DayFromYear 2024 = 19723" "DayFromYear 2025 = 20089"
  by (simp_all add: DayFromYear_def)

lemma firstDayOfMonth_quarters:
  "firstDayOfMonth True 0 = 0" "firstDayOfMonth True 3 = 91" "firstDayOfMonth True 6 = 182"
  "firstDayOfMonth True 9 = 274" "firstDayOfMonth False 0 = 0"
  "firstDayOfMonth True 2 = 60" "firstDayOfMonth True 5 = 152" "firstDayOfMonth True 8 = 244"
  "firstDayOfMonth True 11 = 335"
  by (simp_all add: firstDayOfMonth_def)

lemma utcInstant_2024:
  "utcInstant 2024 0 1 = 1704067200000"
  "utcInstant 2024 3 1 = 1711929600000"
  "utcInstant 2024 6 1 = 1719792000000"
  "utcInstant 2024 9 1 = 1727740800000"
  "utcInstant 2024 12 1 = 1735689600000"
  "utcInstant 2024 2 1 = 1709251200000"
  "utcInstant 2024 5 1 = 1717200000000"
  "utcInstant 2024 8 1 = 1725148800000"
  "utcInstant 2024 11 1 = 1733011200000"
  by (simp_all add: utcInstant_def MakeDay_def msPerDay_def InLeapYear_2024 DayFromYear_2024
      firstDayOfMonth_quarters)

lemma utcInstant_year_0: "utcInstant 0 0 1 = - 62167219200000"
  by (simp add: utcInstant_def MakeDay_def msPerDay_def DayFromYear_def firstDayOfMonth_def)

lemma utcStartOfDate_2024:
  "utcStartOfDate 2024 0 1 = Some 1704067200000"
  "utcStartOfDate 2024 3 1 = Some 1711929600000"
  "utcStartOfDate 2024 6 1 = Some 1719792000000"
  "utcStartOfDate 2024 9 1 = Some 1727740800000"
  "utcStartOfDate 2024 12 1 = Some 1735689600000"
  "utcStartOfDate 2024 2 1 = Some 1709251200000"
  "utcStartOfDate 2024 5 1 = Some 1717200000000"
  "utcStartOfDate 2024 8 1 = Some 1725148800000"
  "utcStartOfDate 2024 11 1 = Some 1733011200000"
  by (simp_all add: utcStartOfDate_def utcInstant_2024 TimeClip_def)

lemma InLeapYear_275760: "InLeapYear 275760"
  by (simp add: InLeapYear_def DaysInYear_def)

lemma utcStartOfDate_275760:
  "utcStartOfDate 275760 0 1 = Some 8639977881600000"
  "utcStartOfDate 275760 3 1 = Some 8639985744000000"
  "utcStartOfDate 275760 6 1 = Some 8639993606400000"
  "utcStartOfDate 275760 8 1 = Some 8639998963200000"
  "utcStartOfDate 275760 9 1 = None"
  by (simp_all add: utcStartOfDate_def utcInstant_def MakeDay_def msPerDay_def InLeapYear_275760
      DayFromYear_ends firstDayOfMonth_quarters TimeClip_def)

lemmas gqd_eval = getQuarterDates_def moment_tz_UTC_def unix_def startOf_month_def endOf_month_def
  utcStartOfDate_2024 TimeClip_def
section \<open>Quarter boundaries\<close>

lemma utcStartOfDate_late:
  assumes "275760 < y" "0 \<le> m" "m \<le> 11"
  shows "utcStartOfDate y m 1 = None"
proof -
  from assms have "m div 12 = 0" "m mod 12 = m" by simp_all
  then have "MakeDay y m 1 = DayFromYear y + firstDayOfMonth (InLeapYear y) m"
    by (simp add: MakeDay_def)
  moreover have "DayFromYear 275761 \<le> DayFromYear y"
    using assms by (intro DayFromYear_mono) simp
  moreover have "DayFromYear 275761 = 100000110" by (simp add: DayFromYear_def)
  ultimately have "100000110 \<le> MakeDay y m 1"
    using firstDayOfMonth_bounds [of "InLeapYear y" m] by simp
  then show ?thesis by (simp add: utcStartOfDate_def utcInstant_def msPerDay_def TimeClip_def)
qed

lemma utcStartOfDate_early:
  assumes "y < - 271821" "0 \<le> m" "m \<le> 11"
  shows "utcStartOfDate y m 1 = None"
proof -
  from assms have "m div 12 = 0" "m mod 12 = m" by simp_all
  then have "MakeDay y m 1 = DayFromYear y + firstDayOfMonth (InLeapYear y) m"
    by (simp add: MakeDay_def)
  moreover have "DayFromYear y \<le> DayFromYear (- 271822)"
    using assms by (intro DayFromYear_mono) simp
  moreover have "DayFromYear (- 271822) = - 100000474" by (simp add: DayFromYear_def)
  ultimately have "MakeDay y m 1 \<le> - 100000139"
    using firstDayOfMonth_bounds [of "InLeapYear y" m] by simp
  then show ?thesis by (simp add: utcStartOfDate_def utcInstant_def msPerDay_def TimeClip_def)
qed

lemma getQuarterDates_beyond:
  assumes "y < - 271821 \<or> 275760 < y"
  shows "getQuarterDates y None q = \<lparr>startOfQuarter = None, endOfQuarter = None\<rparr>"
proof -
  have "moment_tz_UTC y m = None" for m
    using assms utcStartOfDate_late [of y m] utcStartOfDate_early [of y m]
    by (auto simp add: moment_tz_UTC_def)
  then show ?thesis by (simp add: getQuarterDates_def)
qed




text \<open>
  Claim C5, as the code has it. For every year other than 0 from -271820 to 275759 and
  every quarter in \<open>{1,2,3,4}\<close> the end is the last whole second (23:59:59.000 UTC) of
  month \<open>(quarter - 1) * 3 + 2\<close> of that year, 999 milliseconds before the last millisecond
  of the month, because \<^verbatim>\<open>unix()\<close> drops the milliseconds. The start is before the end,
  the first quarter starts with the year, each quarter ends exactly 1000 milliseconds
  before the next one starts, and the fourth quarter ends 1000 milliseconds before the
  next year starts.
\<close>

theorem getQuarterDates_end:
  "y \<noteq> 0 \<Longrightarrow> - 271820 \<le> y \<Longrightarrow> y \<le> 275759 \<Longrightarrow> q \<in> {1, 2, 3, 4} \<Longrightarrow>
     (\<exists>s e. getQuarterDates cy (Some y) q = \<lparr>startOfQuarter = Some s, endOfQuarter = Some e\<rparr>
        \<and> e = spec_last_millisecond_of_month y ((q - 1) * 3 + 2) - 999
        \<and> s < e
        \<and> (q = 1 \<longrightarrow> s = spec_first_instant_of_month y 0)
        \<and> (q < 4 \<longrightarrow> startOfQuarter (getQuarterDates cy (Some y) (q + 1)) = Some (e + 1000))
        \<and> (q = 4 \<longrightarrow> spec_first_instant_of_month (y + 1) 0 = e + 1000))"
proof -
  assume y: "y \<noteq> 0" and r: "- 271820 \<le> y" "y \<le> 275759" and q: "q \<in> {1, 2, 3, 4}"
  let ?s = "spec_first_instant_of_month y ((q - 1) * 3)"
  let ?e = "spec_last_millisecond_of_month y ((q - 1) * 3 + 2) - 999"
  have res: "getQuarterDates cy (Some y) q = \<lparr>startOfQuarter = Some ?s, endOfQuarter = Some ?e\<rparr>"
    using resolved_year(1) [OF y, of cy q] getQuarterDates_spec [OF q r] by simp
  have lt: "?s < ?e" using q by (rule quarter_start_before_end)
  have q1: "q = 1 \<longrightarrow> ?s = spec_first_instant_of_month y 0" by simp
  have nxt: "q < 4 \<longrightarrow> startOfQuarter (getQuarterDates cy (Some y) (q + 1)) = Some (?e + 1000)"
  proof
    assume "q < 4"
    with q have q': "q + 1 \<in> {1, 2, 3, 4}" and b: "0 \<le> (q - 1) * 3 + 2" "(q - 1) * 3 + 2 < 11"
      by auto
    have "(q + 1 - 1) * 3 = (q - 1) * 3 + 2 + 1" by simp
    then show "startOfQuarter (getQuarterDates cy (Some y) (q + 1)) = Some (?e + 1000)"
      using resolved_year(1) [OF y, of cy "q + 1"] getQuarterDates_spec [OF q' r]
        spec_month_succ [OF b, of y]
      by simp
  qed
  have q4: "q = 4 \<longrightarrow> spec_first_instant_of_month (y + 1) 0 = ?e + 1000"
    using spec_year_succ [of y] by auto
  show ?thesis
    by (rule exI [of _ ?s], rule exI [of _ ?e]) (intro conjI refl res lt q1 nxt q4)
qed

text \<open>The theorem at the first quarter of 2024.\<close>

theorem getQuarterDates_end_witness:
  "(2024::int) \<noteq> 0 \<and> - 271820 \<le> (2024::int) \<and> (2024::int) \<le> 275759
   \<and> (1::int) \<in> {1, 2, 3, 4}
   \<and> (\<exists>s e. getQuarterDates 2024 (Some 2024) 1
               = \<lparr>startOfQuarter = Some s, endOfQuarter = Some e\<rparr>
        \<and> e = spec_last_millisecond_of_month 2024 2 - 999
        \<and> e = 1711929599000
        \<and> startOfQuarter (getQuarterDates 2024 (Some 2024) 2) = Some (e + 1000))"
proof -
  have h: "(2024::int) \<noteq> 0" "- 271820 \<le> (2024::int)" "(2024::int) \<le> 275759"
    "(1::int) \<in> {1, 2, 3, 4}" by simp_all
  have v: "getQuarterDates 2024 (Some 2024) 1 =
       \<lparr>startOfQuarter = Some 1704067200000, endOfQuarter = Some 1711929599000\<rparr>"
    by (simp add: gqd_eval)
  have w: "getQuarterDates 2024 (Some 2024) 2 =
       \<lparr>startOfQuarter = Some 1711929600000, endOfQuarter = Some 1719791999000\<rparr>"
    by (simp add: gqd_eval)
  from getQuarterDates_end [OF h, of 2024] obtain s e where
    "getQuarterDates 2024 (Some 2024) 1 = \<lparr>startOfQuarter = Some s, endOfQuarter = Some e\<rparr>"
    "e = spec_last_millisecond_of_month 2024 ((1 - 1) * 3 + 2) - 999"
    by blast
  then have "e = 1711929599000" "e = spec_last_millisecond_of_month 2024 2 - 999"
    unfolding v by simp_all
  then show ?thesis using h v w by simp
qed

text \<open>
  Claim C5 as stated: the end of the first quarter of 2024 is not the last millisecond of
  March 2024, and it is not one millisecond before the start of the second quarter. In
  the year 275760, in which the range of a \<^verbatim>\<open>Date\<close> ends on 13 September, the third
  quarter has a start and no end.
\<close>

theorem getQuarterDates_end_counterexample:
  "endOfQuarter (getQuarterDates 2024 (Some 2024) 1) \<noteq> Some (spec_last_millisecond_of_month 2024 2)
   \<and> map_option (\<lambda>e. e + 1) (endOfQuarter (getQuarterDates 2024 (Some 2024) 1))
        \<noteq> startOfQuarter (getQuarterDates 2024 (Some 2024) 2)
   \<and> getQuarterDates 2024 (Some 275760) 3
        = \<lparr>startOfQuarter = Some 8639993606400000, endOfQuarter = None\<rparr>"
proof (intro conjI)
  have "spec_last_millisecond_of_month 2024 2 = utcInstant 2024 (2 + 1) 1 - 1"
    by (rule endOf_month_spec [symmetric]) simp_all
  then show "endOfQuarter (getQuarterDates 2024 (Some 2024) 1)
               \<noteq> Some (spec_last_millisecond_of_month 2024 2)"
    by (simp add: gqd_eval utcInstant_2024)
  show "map_option (\<lambda>e. e + 1) (endOfQuarter (getQuarterDates 2024 (Some 2024) 1))
        \<noteq> startOfQuarter (getQuarterDates 2024 (Some 2024) 2)"
    by (simp add: gqd_eval)
  show "getQuarterDates 2024 (Some 275760) 3
        = \<lparr>startOfQuarter = Some 8639993606400000, endOfQuarter = None\<rparr>"
    by (simp add: getQuarterDates_def moment_tz_UTC_def unix_def startOf_month_def endOf_month_def
        utcStartOfDate_275760)
qed

section \<open>Expense schema and service\<close>

lemma own_simps [simp]: "own None c = c" "own (Some v) c = v"
  by (simp_all add: own_def)

lemma expense_update_fields:
  "e_id (expense_update this data) = e_id this"
  "e_apartmentId (expense_update this data) = own (ud_apartmentId data) (e_apartmentId this)"
  "e_concept (expense_update this data) = own (ud_concept data) (e_concept this)"
  "e_date (expense_update this data) = own (ud_date data) (e_date this)"
  "e_providerNif (expense_update this data)
     = (case ud_providerNif data of None \<Rightarrow> e_providerNif this | Some v \<Rightarrow> Some v)"
  "e_expense (expense_update this data) = own (ud_expense data) (e_expense this)"
  "e_iva (expense_update this data) = own (ud_iva data) (e_iva this)"
  "e_paid (expense_update this data) = own (ud_paid data) (e_paid this)"
  "e_totalIva (expense_update this data)
     = js_div (js_mul (Num (own (ud_expense data) (e_expense this)))
                 (Num (own (ud_iva data) (e_iva this)))) (Num 100)"
  "e_totalInvoice (expense_update this data)
     = js_add (Num (own (ud_expense data) (e_expense this)))
         (js_div (js_mul (Num (own (ud_expense data) (e_expense this)))
                    (Num (own (ud_iva data) (e_iva this)))) (Num 100))"
  by (simp_all add: expense_update_def Let_def)

lemma find_Some_member: "find P xs = Some x \<Longrightarrow> x \<in> set xs \<and> P x"
  by (induction xs) (auto split: if_splits)

lemma save_expense_member:
  "old \<in> set docs \<Longrightarrow> e_id old = e_id doc \<Longrightarrow> doc \<in> set (save_expense doc docs)"
  by (auto simp add: save_expense_def image_iff intro!: bexI [of _ old])

lemma updateExpenseById_ok:
  assumes "updateExpenseById env db expenseId req = (Inr doc, db')"
  shows "\<exists>old. find (\<lambda>d. e_id d = expenseId) (db_expenses db) = Some old
           \<and> doc = expense_update old
                 \<lparr>ud_apartmentId = truthy_str (q_apartmentId req),
                  ud_concept = truthy_str (q_concept req),
                  ud_date = truthy_num (q_date req),
                  ud_providerNif = truthy_str (q_providerNif req),
                  ud_expense = truthy_num (q_expense req),
                  ud_iva = truthy_num (q_iva req),
                  ud_paid = truthy_bool (q_paid req)\<rparr>
           \<and> db' = db\<lparr>db_expenses := save_expense doc (db_expenses db)\<rparr>"
  using assms unfolding updateExpenseById_def
  by (auto simp add: Let_def split: option.splits bool.splits if_splits)

text \<open>
  Claim C9. The document \<open>createNewExpense\<close> builds and the document \<open>update\<close> leaves
  satisfy \<open>totalIva = expense * iva / 100\<close> and \<open>totalInvoice = expense + totalIva\<close>,
  computed in the arithmetic of the language from the amount and the VAT percentage the
  document then holds; so does every document the update service returns, and that
  document is the one in the store. Both schema methods are total functions of their
  numeric inputs. An expense of 100 at 21 percent has \<open>totalIva = 21\<close> and
  \<open>totalInvoice = 121\<close>.
\<close>

theorem expense_totals:
  "(let doc = createNewExpense newId expense in
      (e_totalIva doc, e_totalInvoice doc) = spec_expenseTotals (x_expense expense) (x_iva expense)
      \<and> e_expense doc = x_expense expense \<and> e_iva doc = x_iva expense)
   \<and> (let doc = expense_update this data in
      (e_totalIva doc, e_totalInvoice doc) = spec_expenseTotals (e_expense doc) (e_iva doc)
      \<and> e_expense doc = own (ud_expense data) (e_expense this)
      \<and> e_iva doc = own (ud_iva data) (e_iva this))
   \<and> (\<forall>doc db'. updateExpenseById env db expenseId req = (Inr doc, db') \<longrightarrow>
        (e_totalIva doc, e_totalInvoice doc) = spec_expenseTotals (e_expense doc) (e_iva doc)
        \<and> doc \<in> set (db_expenses db'))
   \<and> spec_expenseTotals 100 21 = (Num 21, Num 121)
   \<and> e_totalIva (createNewExpense ''e1'' sample_expense) = Num 21
   \<and> e_totalInvoice (createNewExpense ''e1'' sample_expense) = Num 121"
proof (intro conjI allI impI)
  show "let doc = createNewExpense newId expense in
      (e_totalIva doc, e_totalInvoice doc) = spec_expenseTotals (x_expense expense) (x_iva expense)
      \<and> e_expense doc = x_expense expense \<and> e_iva doc = x_iva expense"
    by (simp add: createNewExpense_def spec_expenseTotals_def Let_def)
  show "let doc = expense_update this data in
      (e_totalIva doc, e_totalInvoice doc) = spec_expenseTotals (e_expense doc) (e_iva doc)
      \<and> e_expense doc = own (ud_expense data) (e_expense this)
      \<and> e_iva doc = own (ud_iva data) (e_iva this)"
    by (simp add: expense_update_fields spec_expenseTotals_def Let_def)
  show "spec_expenseTotals 100 21 = (Num 21, Num 121)"
    by (simp add: spec_expenseTotals_def ieee_eval)
  show "e_totalIva (createNewExpense ''e1'' sample_expense) = Num 21"
    by (simp add: createNewExpense_def sample_expense_def ieee_eval)
  show "e_totalInvoice (createNewExpense ''e1'' sample_expense) = Num 121"
    by (simp add: createNewExpense_def sample_expense_def ieee_eval)
next
  fix doc db'
  assume a: "updateExpenseById env db expenseId req = (Inr doc, db')"
  from updateExpenseById_ok [OF a] obtain old data where
    f: "find (\<lambda>d. e_id d = expenseId) (db_expenses db) = Some old"
    and d: "doc = expense_update old data"
    and s: "db' = db\<lparr>db_expenses := save_expense doc (db_expenses db)\<rparr>"
    by blast
  show "(e_totalIva doc, e_totalInvoice doc) = spec_expenseTotals (e_expense doc) (e_iva doc)"
    unfolding d by (simp add: expense_update_fields spec_expenseTotals_def Let_def)
  have "old \<in> set (db_expenses db)" using find_Some_member [OF f] by simp
  moreover have "e_id old = e_id doc" unfolding d by (simp add: expense_update_fields)
  ultimately show "doc \<in> set (db_expenses db')"
    unfolding s by (simp add: save_expense_member)
qed

section \<open>Income schema\<close>

lemma startOf_day_idem: "startOf_day (startOf_day w) = startOf_day w"
proof -
  have "w - w mod msPerDay = msPerDay * (w div msPerDay)"
    by (simp add: minus_mod_eq_mult_div)
  then show ?thesis by (simp add: startOf_day_def)
qed

lemma endOf_day_idem: "endOf_day (endOf_day w) = endOf_day w"
proof -
  have a: "w - w mod msPerDay = msPerDay * (w div msPerDay)"
    by (simp add: minus_mod_eq_mult_div)
  have "(msPerDay * (w div msPerDay) + (msPerDay - 1)) mod msPerDay = (msPerDay - 1) mod msPerDay"
    by (rule mod_mult_self4)
  also have "\<dots> = msPerDay - 1" by (simp add: msPerDay_def)
  finally have "(w - w mod msPerDay + msPerDay - 1) mod msPerDay = msPerDay - 1"
    unfolding a by (simp add: algebra_simps)
  then show ?thesis by (simp add: endOf_day_def)
qed

lemma income_nights_eq:
  "income_nights z checkIn checkOut =
     calculateDaysDifference z (Millis (nearest_double (checkIn * 1000)))
       (Millis (nearest_double (checkOut * 1000)))"
  by (simp add: income_nights_def calculateDaysDifference_def moment.simps(2)
      startOf_day_idem endOf_day_idem)

lemma js_NaN [simp]:
  "js_mul a NaN = NaN" "js_add a NaN = NaN" "js_div a NaN = NaN" "js_sub a NaN = NaN"
  "js_sub NaN a = NaN"
  by (cases a; simp add: js_sub_def)+

lemma discount_then_vat_NaN:
  "discount_then_vat p n k NaN v = (NaN, NaN)"
  by (simp add: discount_then_vat_def)

lemma income_validate_Inr:
  "income_validate doc = Inr doc' \<longleftrightarrow>
     doc' = doc \<and> i_clientName doc \<noteq> [] \<and> i_clientNif doc \<noteq> [] \<and> i_clientPhone doc \<noteq> []
     \<and> i_totalIva doc \<noteq> NaN \<and> i_totalInvoice doc \<noteq> NaN"
  by (auto simp add: income_validate_def income_invalid_paths_def split: if_splits)

lemma income_validate_Inl:
  "i_clientName doc = [] \<or> i_clientNif doc = [] \<or> i_clientPhone doc = []
     \<or> i_totalIva doc = NaN \<or> i_totalInvoice doc = NaN \<Longrightarrow>
   \<exists>msg. income_validate doc = Inl msg"
  by (auto simp add: income_validate_def income_invalid_paths_def)

lemma income_createNewIncome_eq:
  "income_createNewIncome z rates newId income =
     (case Rate_findOne rates (n_rateId income) of
        None \<Rightarrow> Inl ''Cannot read properties of null (reading pricePerNight)''
      | Some rate \<Rightarrow>
          income_validate
            \<lparr>i_id = newId,
             i_apartmentId = n_apartmentId income,
             i_intermediaryId = n_intermediaryId income,
             i_rateId = n_rateId income,
             i_checkIn = n_checkIn income,
             i_checkOut = n_checkOut income,
             i_nights = income_nights z (n_checkIn income) (n_checkOut income),
             i_clientName = n_clientName income,
             i_clientNif = n_clientNif income,
             i_clientPhone = n_clientPhone income,
             i_numberOfPeople = n_numberOfPeople income,
             i_discount = (case n_discount income of None \<Rightarrow> 0 | Some d \<Rightarrow> d),
             i_totalIva = fst (discount_then_vat (Num (r_pricePerNight rate))
                (Num (n_numberOfPeople income))
                (Num (of_int (income_nights z (n_checkIn income) (n_checkOut income))))
                (ToNumber (n_discount income)) (Num (r_iva rate))),
             i_totalInvoice = snd (discount_then_vat (Num (r_pricePerNight rate))
                (Num (n_numberOfPeople income))
                (Num (of_int (income_nights z (n_checkIn income) (n_checkOut income))))
                (ToNumber (n_discount income)) (Num (r_iva rate))),
             i_observations = n_observations income\<rparr>)"
  unfolding income_createNewIncome_def
  by (simp add: Let_def discount_then_vat_def income_nights_def split: option.split)

lemma income_update_eq:
  "income_update z rates this data =
     (case Rate_findOne rates (i_rateId (income_assigned this data)) of
        None \<Rightarrow> Inl ''Cannot read properties of null (reading pricePerNight)''
      | Some rate \<Rightarrow>
          income_validate ((income_assigned this data)
                 \<lparr>i_nights := income_nights z (i_checkIn (income_assigned this data))
                                 (i_checkOut (income_assigned this data)),
                  i_totalIva := fst (discount_then_vat (Num (r_pricePerNight rate))
                       (Num (i_numberOfPeople (income_assigned this data)))
                       (Num (of_int (income_nights z (i_checkIn (income_assigned this data))
                                 (i_checkOut (income_assigned this data)))))
                       (Num (i_discount (income_assigned this data))) (Num (r_iva rate))),
                  i_totalInvoice := snd (discount_then_vat (Num (r_pricePerNight rate))
                       (Num (i_numberOfPeople (income_assigned this data)))
                       (Num (of_int (income_nights z (i_checkIn (income_assigned this data))
                                 (i_checkOut (income_assigned this data)))))
                       (Num (i_discount (income_assigned this data))) (Num (r_iva rate)))\<rparr>))"
  unfolding income_update_def income_assigned_def [symmetric]
  by (simp add: Let_def discount_then_vat_def income_nights_def split: option.split)

lemma income_assigned_fields:
  "i_id (income_assigned this data) = i_id this"
  "i_apartmentId (income_assigned this data) = own (ui_apartmentId data) (i_apartmentId this)"
  "i_intermediaryId (income_assigned this data)
     = own (ui_intermediaryId data) (i_intermediaryId this)"
  "i_rateId (income_assigned this data) = own (ui_rateId data) (i_rateId this)"
  "i_checkIn (income_assigned this data) = own (ui_checkIn data) (i_checkIn this)"
  "i_checkOut (income_assigned this data) = own (ui_checkOut data) (i_checkOut this)"
  "i_clientName (income_assigned this data) = own (ui_clientName data) (i_clientName this)"
  "i_clientNif (income_assigned this data) = own (ui_clientNif data) (i_clientNif this)"
  "i_clientPhone (income_assigned this data) = own (ui_clientPhone data) (i_clientPhone this)"
  "i_numberOfPeople (income_assigned this data)
     = own (ui_numberOfPeople data) (i_numberOfPeople this)"
  "i_discount (income_assigned this data) = own (ui_discount data) (i_discount this)"
  "i_observations (income_assigned this data)
     = (case ui_observations data of None \<Rightarrow> i_observations this | Some v \<Rightarrow> Some v)"
  by (simp_all add: income_assigned_def)

lemmas days_eval = moment.simps calculateDaysDifference_def js_trunc_def startOf_day_def
  endOf_day_def diff_days_def absFloor_div_def msPerDay_def zone_utc_def zone_plus_two_def

lemma three_nights_fields:
  "n_rateId three_nights = ''r1''" "n_discount three_nights = Some 10"
  "n_checkIn three_nights = 1718920414" "n_checkOut three_nights = 1719179614"
  "n_numberOfPeople three_nights = 2"
  by (simp_all add: three_nights_def)

lemma sample_rate_fields:
  "r_id sample_rate = ''r1''" "r_apartmentId sample_rate = ''a1''"
  "r_pricePerNight sample_rate = 50" "r_iva sample_rate = 21"
  by (simp_all add: sample_rate_def)

lemma sample_rate_found:
  "Rate_findOne [sample_rate] ''r1'' = Some sample_rate"
  by (simp add: Rate_findOne_def sample_rate_fields)

lemma timestamp_doubles [simp]:
  "nearest_double 1718920414000 = 1718920414000"
  "nearest_double 1719179614000 = 1719179614000"
  "nearest_double 1719356014000 = 1719356014000"
  "nearest_double 1719900000000 = 1719900000000"
  by (simp_all add: ieee_eval)

lemma three_nights_count:
  "calculateDaysDifference zone_utc (Millis 1718920414000) (Millis 1719179614000) = 3"
  by (simp add: days_eval)

section \<open>Income totals\<close>

lemma discount_then_vat_exact:
  assumes "is_double (p * n)" "is_double (p * n * k)" "is_double (d / 100)"
    "is_double (p * n * k * (d / 100))" "is_double (p * n * k - p * n * k * (d / 100))"
    "is_double (v / 100)" "is_double ((p * n * k - p * n * k * (d / 100)) * (v / 100))"
    "is_double (p * n * k - p * n * k * (d / 100)
                + (p * n * k - p * n * k * (d / 100)) * (v / 100))"
  shows "discount_then_vat (Num p) (Num n) (Num k) (Num d) (Num v)
           = (Num (fst (exact_incomeTotals p n k d v)), Num (snd (exact_incomeTotals p n k d v)))"
proof -
  define base where "base = p * n * k"
  define amount where "amount = base * (d / 100)"
  define discounted where "discounted = base - amount"
  define iva where "iva = discounted * (v / 100)"
  note h = assms [unfolded is_double_def, folded base_def, folded amount_def,
      folded discounted_def, folded iva_def]
  have b: "js_mul (js_mul (Num p) (Num n)) (Num k) = Num base"
    using h(1) h(2) by (simp only: js_mul.simps base_def)
  have dq: "js_div (Num d) (Num 100) = Num (d / 100)"
    using h(3) by simp
  have a: "js_mul (Num base) (Num (d / 100)) = Num amount"
    using h(4) by (simp only: js_mul.simps amount_def)
  have s: "js_sub (Num base) (Num amount) = Num discounted"
    using h(5) by (simp add: js_sub_def discounted_def)
  have vq: "js_div (Num v) (Num 100) = Num (v / 100)"
    using h(6) by simp
  have i: "js_mul (Num discounted) (Num (v / 100)) = Num iva"
    using h(7) by (simp only: js_mul.simps iva_def)
  have t: "js_add (Num discounted) (Num iva) = Num (discounted + iva)"
    using h(8) by (simp only: js_add.simps)
  have "discount_then_vat (Num p) (Num n) (Num k) (Num d) (Num v) = (Num iva, Num (discounted + iva))"
    unfolding discount_then_vat_def Let_def b dq a s vq i t ..
  moreover have "iva = fst (exact_incomeTotals p n k d v)"
    "discounted + iva = snd (exact_incomeTotals p n k d v)"
    by (simp_all add: exact_incomeTotals_def Let_def iva_def discounted_def amount_def base_def
        right_diff_distrib)
  ultimately show ?thesis by simp
qed

lemma createNewIncome_totals:
  assumes "income_createNewIncome z rates newId income = Inr doc"
  shows "\<exists>rate. Rate_findOne rates (n_rateId income) = Some rate
         \<and> i_nights doc = calculateDaysDifference z
                             (Millis (nearest_double (n_checkIn income * 1000)))
                             (Millis (nearest_double (n_checkOut income * 1000)))
         \<and> i_numberOfPeople doc = n_numberOfPeople income
         \<and> n_discount income = Some (i_discount doc)
         \<and> (i_totalIva doc, i_totalInvoice doc)
             = discount_then_vat (Num (r_pricePerNight rate)) (Num (i_numberOfPeople doc))
                 (Num (of_int (i_nights doc))) (Num (i_discount doc)) (Num (r_iva rate))
         \<and> i_totalIva doc \<noteq> NaN \<and> i_totalInvoice doc \<noteq> NaN
         \<and> i_clientName doc \<noteq> [] \<and> i_clientNif doc \<noteq> [] \<and> i_clientPhone doc \<noteq> []"
proof (cases "Rate_findOne rates (n_rateId income)")
  case None
  with assms show ?thesis by (simp add: income_createNewIncome_eq)
next
  case (Some rate)
  show ?thesis
  proof (cases "n_discount income")
    case None
    with assms Some show ?thesis
      by (simp add: income_createNewIncome_eq income_validate_Inr ToNumber_def
          discount_then_vat_NaN)
  next
    case d: (Some d)
    with assms Some show ?thesis
      by (auto simp add: income_createNewIncome_eq income_validate_Inr ToNumber_def
          income_nights_eq)
  qed
qed

lemma income_update_totals:
  assumes "income_update z rates this data = Inr doc"
  shows "\<exists>rate. Rate_findOne rates (i_rateId doc) = Some rate
         \<and> i_rateId doc = own (ui_rateId data) (i_rateId this)
         \<and> i_nights doc = calculateDaysDifference z
                             (Millis (nearest_double (i_checkIn doc * 1000)))
                             (Millis (nearest_double (i_checkOut doc * 1000)))
         \<and> i_numberOfPeople doc = own (ui_numberOfPeople data) (i_numberOfPeople this)
         \<and> i_discount doc = own (ui_discount data) (i_discount this)
         \<and> (i_totalIva doc, i_totalInvoice doc)
             = discount_then_vat (Num (r_pricePerNight rate)) (Num (i_numberOfPeople doc))
                 (Num (of_int (i_nights doc))) (Num (i_discount doc)) (Num (r_iva rate))
         \<and> i_totalIva doc \<noteq> NaN \<and> i_totalInvoice doc \<noteq> NaN
         \<and> i_clientName doc \<noteq> [] \<and> i_clientNif doc \<noteq> [] \<and> i_clientPhone doc \<noteq> []"
proof (cases "Rate_findOne rates (i_rateId (income_assigned this data))")
  case None
  with assms show ?thesis by (simp add: income_update_eq)
next
  case (Some rate)
  with assms show ?thesis
    by (auto simp add: income_update_eq income_validate_Inr income_assigned_fields
        income_nights_eq)
qed

lemma createNewIncome_refused:
  assumes "n_clientName income = [] \<or> n_clientNif income = [] \<or> n_clientPhone income = []
           \<or> n_discount income = None"
  shows "\<exists>msg. income_createNewIncome z rates newId income = Inl msg"
proof (cases "Rate_findOne rates (n_rateId income)")
  case None
  then show ?thesis by (simp add: income_createNewIncome_eq)
next
  case (Some rate)
  from assms show ?thesis
    unfolding income_createNewIncome_eq Some option.case
    by (intro income_validate_Inl) (auto simp add: ToNumber_def discount_then_vat_NaN)
qed

lemma sample_totals:
  "discount_then_vat (Num 50) (Num 2) (Num 3) (Num 10) (Num 21)
     = (Num (7979815589747097 / 140737488355328), Num (5747367180710707 / 17592186044416))"
  by (simp add: discount_then_vat_def ieee_eval)

lemma sample_doubles:
  "round_double (567 / 10) = Num (3989907794873549 / 70368744177664)"
  "round_double (3267 / 10) = Num (5747367180710707 / 17592186044416)"
  "nearest_double (567 / 10) = 3989907794873549 / 70368744177664"
  by (simp_all add: ieee_eval)

lemma sample_spec_totals:
  "spec_incomeTotals (Num 50) (Num 2) (Num 3) (Num 10) (Num 21)
     = (Num (3989907794873549 / 70368744177664), Num (5747367180710707 / 17592186044416))"
  by (simp add: spec_incomeTotals_def ieee_eval)

text \<open>
  Claim C3, as the code has it. Every income document that creation or update stores has
  the totals of \<open>discount_then_vat\<close>, computed in the arithmetic of the language from the
  price per night \<open>p\<close> and the VAT rate \<open>v\<close> of the rate found at that moment, the number
  of people \<open>n\<close>, the nights \<open>k\<close> computed from check-in and check-out and the discount \<open>d\<close>
  of the document: \<open>base = p * n * k\<close>, \<open>discountAmount = base * (d / 100)\<close>,
  \<open>discounted = base - discountAmount\<close>, \<open>totalIva = discounted * (v / 100)\<close> and
  \<open>totalInvoice = discounted + totalIva\<close>, every operation rounded to a double. The VAT is
  taken on the discounted amount. Neither total of a stored document is \<^verbatim>\<open>NaN\<close>, and
  a creation without a discount or with an empty client name, NIF or phone stores
  nothing. When no operation rounds, the totals are those of the formulas
  \<open>discounted = base * (1 - d / 100)\<close> and \<open>totalIva = discounted * v / 100\<close> on exact
  numbers. For \<open>p = 50\<close>, \<open>n = 2\<close>, \<open>k = 3\<close>, \<open>d = 10\<close>, \<open>v = 21\<close> the total VAT is the
  double next below that of 56.7, which prints as 56.699999999999996, and the total
  invoice is the double of 326.7.
\<close>

theorem income_totals:
  "(\<forall>doc. income_createNewIncome z rates newId income = Inr doc \<longrightarrow>
      (\<exists>rate. Rate_findOne rates (n_rateId income) = Some rate
         \<and> i_nights doc = calculateDaysDifference z
                             (Millis (nearest_double (n_checkIn income * 1000)))
                             (Millis (nearest_double (n_checkOut income * 1000)))
         \<and> i_numberOfPeople doc = n_numberOfPeople income
         \<and> n_discount income = Some (i_discount doc)
         \<and> (i_totalIva doc, i_totalInvoice doc)
             = discount_then_vat (Num (r_pricePerNight rate)) (Num (i_numberOfPeople doc))
                 (Num (of_int (i_nights doc))) (Num (i_discount doc)) (Num (r_iva rate))
         \<and> i_totalIva doc \<noteq> NaN \<and> i_totalInvoice doc \<noteq> NaN
         \<and> i_clientName doc \<noteq> [] \<and> i_clientNif doc \<noteq> [] \<and> i_clientPhone doc \<noteq> []))
   \<and> (\<forall>doc. income_update z rates this data = Inr doc \<longrightarrow>
      (\<exists>rate. Rate_findOne rates (i_rateId doc) = Some rate
         \<and> i_rateId doc = own (ui_rateId data) (i_rateId this)
         \<and> i_nights doc = calculateDaysDifference z
                             (Millis (nearest_double (i_checkIn doc * 1000)))
                             (Millis (nearest_double (i_checkOut doc * 1000)))
         \<and> i_numberOfPeople doc = own (ui_numberOfPeople data) (i_numberOfPeople this)
         \<and> i_discount doc = own (ui_discount data) (i_discount this)
         \<and> (i_totalIva doc, i_totalInvoice doc)
             = discount_then_vat (Num (r_pricePerNight rate)) (Num (i_numberOfPeople doc))
                 (Num (of_int (i_nights doc))) (Num (i_discount doc)) (Num (r_iva rate))
         \<and> i_totalIva doc \<noteq> NaN \<and> i_totalInvoice doc \<noteq> NaN
         \<and> i_clientName doc \<noteq> [] \<and> i_clientNif doc \<noteq> [] \<and> i_clientPhone doc \<noteq> []))
   \<and> (n_clientName income = [] \<or> n_clientNif income = [] \<or> n_clientPhone income = []
         \<or> n_discount income = None \<longrightarrow>
       (\<exists>msg. income_createNewIncome z rates newId income = Inl msg))
   \<and> (\<forall>p n k d v.
         is_double (p * n) \<longrightarrow> is_double (p * n * k) \<longrightarrow> is_double (d / 100) \<longrightarrow>
         is_double (p * n * k * (d / 100)) \<longrightarrow>
         is_double (p * n * k - p * n * k * (d / 100)) \<longrightarrow>
         is_double (v / 100) \<longrightarrow>
         is_double ((p * n * k - p * n * k * (d / 100)) * (v / 100)) \<longrightarrow>
         is_double (p * n * k - p * n * k * (d / 100)
                      + (p * n * k - p * n * k * (d / 100)) * (v / 100)) \<longrightarrow>
         discount_then_vat (Num p) (Num n) (Num k) (Num d) (Num v)
           = (Num (fst (exact_incomeTotals p n k d v)), Num (snd (exact_incomeTotals p n k d v))))
   \<and> discount_then_vat (Num 50) (Num 2) (Num 3) (Num 10) (Num 21)
       = (Num (nearest_double (567 / 10) - 1 / 2 ^ 47), round_double (3267 / 10))"
proof (intro conjI allI impI)
  fix doc
  assume "income_createNewIncome z rates newId income = Inr doc"
  then show "\<exists>rate. Rate_findOne rates (n_rateId income) = Some rate
         \<and> i_nights doc = calculateDaysDifference z
                             (Millis (nearest_double (n_checkIn income * 1000)))
                             (Millis (nearest_double (n_checkOut income * 1000)))
         \<and> i_numberOfPeople doc = n_numberOfPeople income
         \<and> n_discount income = Some (i_discount doc)
         \<and> (i_totalIva doc, i_totalInvoice doc)
             = discount_then_vat (Num (r_pricePerNight rate)) (Num (i_numberOfPeople doc))
                 (Num (of_int (i_nights doc))) (Num (i_discount doc)) (Num (r_iva rate))
         \<and> i_totalIva doc \<noteq> NaN \<and> i_totalInvoice doc \<noteq> NaN
         \<and> i_clientName doc \<noteq> [] \<and> i_clientNif doc \<noteq> [] \<and> i_clientPhone doc \<noteq> []"
    by (rule createNewIncome_totals)
next
  fix doc
  assume "income_update z rates this data = Inr doc"
  then show "\<exists>rate. Rate_findOne rates (i_rateId doc) = Some rate
         \<and> i_rateId doc = own (ui_rateId data) (i_rateId this)
         \<and> i_nights doc = calculateDaysDifference z
                             (Millis (nearest_double (i_checkIn doc * 1000)))
                             (Millis (nearest_double (i_checkOut doc * 1000)))
         \<and> i_numberOfPeople doc = own (ui_numberOfPeople data) (i_numberOfPeople this)
         \<and> i_discount doc = own (ui_discount data) (i_discount this)
         \<and> (i_totalIva doc, i_totalInvoice doc)
             = discount_then_vat (Num (r_pricePerNight rate)) (Num (i_numberOfPeople doc))
                 (Num (of_int (i_nights doc))) (Num (i_discount doc)) (Num (r_iva rate))
         \<and> i_totalIva doc \<noteq> NaN \<and> i_totalInvoice doc \<noteq> NaN
         \<and> i_clientName doc \<noteq> [] \<and> i_clientNif doc \<noteq> [] \<and> i_clientPhone doc \<noteq> []"
    by (rule income_update_totals)
next
  assume "n_clientName income = [] \<or> n_clientNif income = [] \<or> n_clientPhone income = []
         \<or> n_discount income = None"
  then show "\<exists>msg. income_createNewIncome z rates newId income = Inl msg"
    by (rule createNewIncome_refused)
next
  fix p n k d v :: real
  assume "is_double (p * n)" "is_double (p * n * k)" "is_double (d / 100)"
    "is_double (p * n * k * (d / 100))" "is_double (p * n * k - p * n * k * (d / 100))"
    "is_double (v / 100)" "is_double ((p * n * k - p * n * k * (d / 100)) * (v / 100))"
    "is_double (p * n * k - p * n * k * (d / 100)
                + (p * n * k - p * n * k * (d / 100)) * (v / 100))"
  then show "discount_then_vat (Num p) (Num n) (Num k) (Num d) (Num v)
           = (Num (fst (exact_incomeTotals p n k d v)), Num (snd (exact_incomeTotals p n k d v)))"
    by (rule discount_then_vat_exact)
next
  show "discount_then_vat (Num 50) (Num 2) (Num 3) (Num 10) (Num 21)
       = (Num (nearest_double (567 / 10) - 1 / 2 ^ 47), round_double (3267 / 10))"
    by (simp add: sample_totals sample_doubles)
qed

lemma three_nights_created:
  "income_createNewIncome zone_utc [sample_rate] ''i1'' three_nights
     = Inr \<lparr>i_id = ''i1'', i_apartmentId = ''a1'', i_intermediaryId = ''m1'', i_rateId = ''r1'',
            i_checkIn = 1718920414, i_checkOut = 1719179614, i_nights = 3,
            i_clientName = ''Ana'', i_clientNif = ''00000000T'', i_clientPhone = ''600000000'',
            i_numberOfPeople = 2, i_discount = 10,
            i_totalIva = Num (7979815589747097 / 140737488355328),
            i_totalInvoice = Num (5747367180710707 / 17592186044416),
            i_observations = None\<rparr>"
  by (simp add: income_createNewIncome_eq three_nights_def sample_rate_found income_nights_eq
      three_nights_count sample_rate_fields ToNumber_def sample_totals income_validate_Inr)

lemma exact_sample:
  "is_double (50 * 2)" "is_double (50 * 2 * 3)" "is_double (25 / 100)"
  "is_double (50 * 2 * 3 * (25 / 100))" "is_double (50 * 2 * 3 - 50 * 2 * 3 * (25 / 100))"
  "is_double (50 / 100)"
  "is_double ((50 * 2 * 3 - 50 * 2 * 3 * (25 / 100)) * (50 / 100))"
  "is_double (50 * 2 * 3 - 50 * 2 * 3 * (25 / 100)
                + (50 * 2 * 3 - 50 * 2 * 3 * (25 / 100)) * (50 / 100))"
  by (simp_all add: is_double_def ieee_eval)

text \<open>
  The theorem at a stay of three nights for two people at the sample rate, and at a
  discount of 25 percent and a VAT rate of 50 percent, for which no operation rounds.
\<close>

theorem income_totals_witness:
  "(\<exists>doc. income_createNewIncome zone_utc [sample_rate] ''i1'' three_nights = Inr doc
       \<and> Rate_findOne [sample_rate] (n_rateId three_nights) = Some sample_rate
       \<and> i_nights doc = 3 \<and> i_numberOfPeople doc = 2 \<and> i_discount doc = 10
       \<and> (i_totalIva doc, i_totalInvoice doc)
           = discount_then_vat (Num 50) (Num 2) (Num 3) (Num 10) (Num 21)
       \<and> i_totalIva doc = Num (7979815589747097 / 140737488355328)
       \<and> i_totalInvoice doc = round_double (3267 / 10))
   \<and> is_double (50 * 2) \<and> is_double (50 * 2 * 3) \<and> is_double (25 / 100)
   \<and> is_double (50 * 2 * 3 * (25 / 100))
   \<and> is_double (50 * 2 * 3 - 50 * 2 * 3 * (25 / 100))
   \<and> is_double (50 / 100)
   \<and> is_double ((50 * 2 * 3 - 50 * 2 * 3 * (25 / 100)) * (50 / 100))
   \<and> is_double (50 * 2 * 3 - 50 * 2 * 3 * (25 / 100)
                  + (50 * 2 * 3 - 50 * 2 * 3 * (25 / 100)) * (50 / 100))
   \<and> discount_then_vat (Num 50) (Num 2) (Num 3) (Num 25) (Num 50) = (Num (225 / 2), Num (675 / 2))
   \<and> exact_incomeTotals 50 2 3 25 50 = (225 / 2, 675 / 2)"
proof -
  note t = income_totals [of zone_utc "[sample_rate]" "''i1''" three_nights]
  obtain doc where ev: "income_createNewIncome zone_utc [sample_rate] ''i1'' three_nights = Inr doc"
    using three_nights_created by blast
  from t [THEN conjunct1, rule_format, OF ev] obtain rate where
    r: "Rate_findOne [sample_rate] (n_rateId three_nights) = Some rate"
    and n: "i_nights doc = calculateDaysDifference zone_utc
                             (Millis (nearest_double (n_checkIn three_nights * 1000)))
                             (Millis (nearest_double (n_checkOut three_nights * 1000)))"
    and p: "i_numberOfPeople doc = n_numberOfPeople three_nights"
    and d: "n_discount three_nights = Some (i_discount doc)"
    and v: "(i_totalIva doc, i_totalInvoice doc)
             = discount_then_vat (Num (r_pricePerNight rate)) (Num (i_numberOfPeople doc))
                 (Num (of_int (i_nights doc))) (Num (i_discount doc)) (Num (r_iva rate))"
    by (elim exE conjE)
  from r have rate: "rate = sample_rate"
    by (simp add: three_nights_fields sample_rate_found)
  have n': "i_nights doc = 3" using n by (simp add: three_nights_fields three_nights_count)
  have p': "i_numberOfPeople doc = 2" using p by (simp add: three_nights_fields)
  have d': "i_discount doc = 10" using d by (simp add: three_nights_fields)
  have v': "(i_totalIva doc, i_totalInvoice doc)
             = discount_then_vat (Num 50) (Num 2) (Num 3) (Num 10) (Num 21)"
    using v by (simp add: rate n' p' d' sample_rate_fields)
  then have w: "i_totalIva doc = Num (7979815589747097 / 140737488355328)"
    "i_totalInvoice doc = round_double (3267 / 10)"
    by (simp_all add: sample_totals sample_doubles)
  have first: "\<exists>doc. income_createNewIncome zone_utc [sample_rate] ''i1'' three_nights = Inr doc
       \<and> Rate_findOne [sample_rate] (n_rateId three_nights) = Some sample_rate
       \<and> i_nights doc = 3 \<and> i_numberOfPeople doc = 2 \<and> i_discount doc = 10
       \<and> (i_totalIva doc, i_totalInvoice doc)
           = discount_then_vat (Num 50) (Num 2) (Num 3) (Num 10) (Num 21)
       \<and> i_totalIva doc = Num (7979815589747097 / 140737488355328)
       \<and> i_totalInvoice doc = round_double (3267 / 10)"
    using ev r rate n' p' d' v' w by blast
  have x: "discount_then_vat (Num 50) (Num 2) (Num 3) (Num 25) (Num 50)
             = (Num (fst (exact_incomeTotals 50 2 3 25 50)), Num (snd (exact_incomeTotals 50 2 3 25 50)))"
    by (rule t [THEN conjunct2, THEN conjunct2, THEN conjunct2, THEN conjunct1, rule_format])
      (rule exact_sample)+
  have e: "exact_incomeTotals 50 2 3 25 50 = (225 / 2, 675 / 2)"
    by (simp add: exact_incomeTotals_def)
  have x': "discount_then_vat (Num 50) (Num 2) (Num 3) (Num 25) (Num 50) = (Num (225 / 2), Num (675 / 2))"
    using x unfolding e by simp
  show ?thesis
    by (intro conjI first exact_sample x' e)
qed

text \<open>
  Claim C3 as stated says that the stored totals for \<open>p = 50\<close>, \<open>n = 2\<close>, \<open>k = 3\<close>,
  \<open>d = 10\<close>, \<open>v = 21\<close> are 56.7 and 326.7, and that \<open>totalIva = discounted * v / 100\<close>
  with \<open>discounted = base * (1 - d / 100)\<close>. In the arithmetic of the language these
  formulas give the double of 56.7; the document that creation stores has another total
  VAT, and an update that names no field replaces a stored total VAT of 56.7 by that
  other number.
\<close>

theorem income_totals_counterexample:
  "(\<exists>doc. income_createNewIncome zone_utc [sample_rate] ''i1'' three_nights = Inr doc
       \<and> i_nights doc = 3 \<and> i_numberOfPeople doc = 2 \<and> i_discount doc = 10
       \<and> i_totalIva doc \<noteq> round_double (567 / 10)
       \<and> (i_totalIva doc, i_totalInvoice doc)
           \<noteq> spec_incomeTotals (Num 50) (Num 2) (Num 3) (Num 10) (Num 21))
   \<and> spec_incomeTotals (Num 50) (Num 2) (Num 3) (Num 10) (Num 21)
       = (round_double (567 / 10), round_double (3267 / 10))
   \<and> (\<exists>doc. income_update zone_utc [sample_rate]
               (stored_income\<lparr>i_totalIva := round_double (567 / 10)\<rparr>)
               \<lparr>ui_apartmentId = None, ui_intermediaryId = None, ui_rateId = None,
                ui_checkIn = None, ui_checkOut = None, ui_clientName = None,
                ui_clientNif = None, ui_clientPhone = None, ui_numberOfPeople = None,
                ui_discount = None, ui_observations = None\<rparr> = Inr doc
       \<and> i_totalIva doc \<noteq> round_double (567 / 10))"
proof (intro conjI)
  show "\<exists>doc. income_createNewIncome zone_utc [sample_rate] ''i1'' three_nights = Inr doc
       \<and> i_nights doc = 3 \<and> i_numberOfPeople doc = 2 \<and> i_discount doc = 10
       \<and> i_totalIva doc \<noteq> round_double (567 / 10)
       \<and> (i_totalIva doc, i_totalInvoice doc)
           \<noteq> spec_incomeTotals (Num 50) (Num 2) (Num 3) (Num 10) (Num 21)"
    by (simp add: three_nights_created sample_doubles sample_spec_totals)
  show "spec_incomeTotals (Num 50) (Num 2) (Num 3) (Num 10) (Num 21)
       = (round_double (567 / 10), round_double (3267 / 10))"
    by (simp add: sample_doubles sample_spec_totals)
  let ?data = "\<lparr>ui_apartmentId = None, ui_intermediaryId = None, ui_rateId = None,
                ui_checkIn = None, ui_checkOut = None, ui_clientName = None,
                ui_clientNif = None, ui_clientPhone = None, ui_numberOfPeople = None,
                ui_discount = None, ui_observations = None\<rparr>"
  let ?old = "stored_income\<lparr>i_totalIva := round_double (567 / 10)\<rparr>"
  have a: "income_assigned ?old ?data = ?old"
    by (simp add: income_assigned_def)
  have "income_update zone_utc [sample_rate] ?old ?data
          = Inr (?old\<lparr>i_nights := 3,
                     i_totalIva := Num (7979815589747097 / 140737488355328),
                     i_totalInvoice := Num (5747367180710707 / 17592186044416)\<rparr>)"
    unfolding income_update_eq a
    by (simp add: stored_income_def sample_rate_found income_nights_eq three_nights_count
        sample_rate_fields sample_totals income_validate_Inr)
  then show "\<exists>doc. income_update zone_utc [sample_rate] ?old ?data = Inr doc
       \<and> i_totalIva doc \<noteq> round_double (567 / 10)"
    by (simp add: sample_doubles)
qed

section \<open>Dashboard\<close>

lemma fold_js_add:
  "fold (\<lambda>x total. js_add total (f x)) xs a = foldl js_add a (map f xs)"
  by (induction xs arbitrary: a) simp_all

lemma getDashboardData_settlement:
  "\<exists>d. getDashboardData env (Inr incomes) (Inr expenses) = Inr d
       \<and> spec_settlement d incomes expenses"
  by (simp add: getDashboardData_def spec_settlement_def spec_sum_def Let_def fold_js_add)

lemma Model_find_window:
  "Model_find (Inr docs) field \<lparr>gte = Some (of_int s / 1000), lte = Some (of_int e / 1000)\<rparr>
     = Inr (filter (\<lambda>d. spec_in_window s e (field d)) docs)"
proof -
  have "(of_int s / 1000 \<le> v \<and> v \<le> of_int e / 1000) = spec_in_window s e v" for v :: real
    by (simp add: spec_in_window_def field_simps)
  then show ?thesis by (simp add: Model_find_def)
qed

lemma Model_find_NaN:
  "Model_find model field \<lparr>gte = None, lte = b\<rparr> = Inl ''Cast to Number failed for value NaN''"
  "Model_find model field \<lparr>gte = a, lte = None\<rparr> = Inl ''Cast to Number failed for value NaN''"
  by (simp_all add: Model_find_def split: option.split)

lemma window_settlement_of_quarter:
  assumes g: "getQuarterDates (currentYear env) None quarter
                = \<lparr>startOfQuarter = Some s, endOfQuarter = Some e\<rparr>"
  shows "\<exists>d. getDashboardByQuarterData env (Inr allIncomes) (Inr allExpenses) quarter = Inr d
          \<and> spec_settlement d (filter (\<lambda>i. spec_in_window s e (i_checkIn i)) allIncomes)
              (filter (\<lambda>x. spec_in_window s e (e_date x)) allExpenses)"
  unfolding getDashboardByQuarterData_def g
  by (simp add: Let_def Model_find_window spec_settlement_def spec_sum_def fold_js_add)

lemma getDashboardByQuarterData_no_quarter:
  assumes "quarter < 1 \<or> 4 < quarter"
  shows "getDashboardByQuarterData env incomeModel expenseModel quarter
           = Inl (INTERNAL_SERVER_ERROR ''Cast to Number failed for value NaN'')"
  unfolding getDashboardByQuarterData_def getQuarterDates_no_quarter [OF assms]
  by (simp add: Let_def Model_find_NaN)

lemma spec_settlement_empty:
  "spec_settlement d [] es \<Longrightarrow>
     map_of d ''totalIncomes'' = Some (NumberV (Num 0))
     \<and> map_of d ''totalVATQuarterlyIncomes'' = Some (NumberV (Num 0))"
  "spec_settlement d is [] \<Longrightarrow>
     map_of d ''totalExpenses'' = Some (NumberV (Num 0))
     \<and> map_of d ''totalVATQuarterlyExpenses'' = Some (NumberV (Num 0))"
  by (simp_all add: spec_settlement_def spec_sum_def Let_def)

text \<open>
  Claim C1. For all income and expense records, the dashboard returns a success value,
  and so does the quarterly dashboard for a quarter in \<open>{1,2,3,4}\<close> of a current year
  whose months lie within the range of a \<^verbatim>\<open>Date\<close>. The records listed are all
  records, or for the quarterly dashboard the incomes whose check-in, and the expenses
  whose date, lies in the window of the quarter. The \<open>totalIncomes\<close> and \<open>totalExpenses\<close>
  are the sums of the \<open>totalInvoice\<close> fields, and the two VAT totals the sums of the
  \<open>totalIva\<close> fields, of the records listed, added up in the arithmetic of the language
  in the order of the list; \<open>result = totalIncomes - totalExpenses\<close> and
  \<open>quarterlyVAT = totalVATQuarterlyIncomes - totalVATQuarterlyExpenses\<close>. With no
  incomes, or with no expenses, the totals of that side are 0 and the value is still a
  success.
\<close>

theorem dashboard_settlement:
  "(\<exists>d. getDashboardData env (Inr incomes) (Inr expenses) = Inr d
        \<and> spec_settlement d incomes expenses)
   \<and> (\<exists>d. getDashboardData env (Inr []) (Inr expenses) = Inr d
        \<and> map_of d ''totalIncomes'' = Some (NumberV (Num 0))
        \<and> map_of d ''totalVATQuarterlyIncomes'' = Some (NumberV (Num 0)))
   \<and> (\<exists>d. getDashboardData env (Inr incomes) (Inr []) = Inr d
        \<and> map_of d ''totalExpenses'' = Some (NumberV (Num 0))
        \<and> map_of d ''totalVATQuarterlyExpenses'' = Some (NumberV (Num 0)))
   \<and> (quarter \<in> {1, 2, 3, 4} \<longrightarrow> - 271820 \<le> currentYear env \<longrightarrow> currentYear env \<le> 275759 \<longrightarrow>
        (\<exists>s e d. getQuarterDates (currentYear env) None quarter
                    = \<lparr>startOfQuarter = Some s, endOfQuarter = Some e\<rparr>
            \<and> getDashboardByQuarterData env (Inr incomes) (Inr expenses) quarter = Inr d
            \<and> spec_settlement d (filter (\<lambda>i. spec_in_window s e (i_checkIn i)) incomes)
                (filter (\<lambda>x. spec_in_window s e (e_date x)) expenses))
        \<and> (\<exists>d. getDashboardByQuarterData env (Inr []) (Inr expenses) quarter = Inr d
            \<and> map_of d ''totalIncomes'' = Some (NumberV (Num 0))
            \<and> map_of d ''totalVATQuarterlyIncomes'' = Some (NumberV (Num 0)))
        \<and> (\<exists>d. getDashboardByQuarterData env (Inr incomes) (Inr []) quarter = Inr d
            \<and> map_of d ''totalExpenses'' = Some (NumberV (Num 0))
            \<and> map_of d ''totalVATQuarterlyExpenses'' = Some (NumberV (Num 0))))"
proof (intro conjI impI)
  show "\<exists>d. getDashboardData env (Inr incomes) (Inr expenses) = Inr d
        \<and> spec_settlement d incomes expenses"
    by (rule getDashboardData_settlement)
  show "\<exists>d. getDashboardData env (Inr []) (Inr expenses) = Inr d
        \<and> map_of d ''totalIncomes'' = Some (NumberV (Num 0))
        \<and> map_of d ''totalVATQuarterlyIncomes'' = Some (NumberV (Num 0))"
    using getDashboardData_settlement [of env "[]" expenses] spec_settlement_empty(1) by blast
  show "\<exists>d. getDashboardData env (Inr incomes) (Inr []) = Inr d
        \<and> map_of d ''totalExpenses'' = Some (NumberV (Num 0))
        \<and> map_of d ''totalVATQuarterlyExpenses'' = Some (NumberV (Num 0))"
    using getDashboardData_settlement [of env incomes "[]"] spec_settlement_empty(2) by blast
next
  assume q: "quarter \<in> {1, 2, 3, 4}" and y: "- 271820 \<le> currentYear env" "currentYear env \<le> 275759"
  let ?s = "spec_first_instant_of_month (currentYear env) ((quarter - 1) * 3)"
  let ?e = "spec_last_millisecond_of_month (currentYear env) ((quarter - 1) * 3 + 2) - 999"
  have g: "getQuarterDates (currentYear env) None quarter
             = \<lparr>startOfQuarter = Some ?s, endOfQuarter = Some ?e\<rparr>"
    using q y by (rule getQuarterDates_spec)
  show "\<exists>s e d. getQuarterDates (currentYear env) None quarter
                    = \<lparr>startOfQuarter = Some s, endOfQuarter = Some e\<rparr>
            \<and> getDashboardByQuarterData env (Inr incomes) (Inr expenses) quarter = Inr d
            \<and> spec_settlement d (filter (\<lambda>i. spec_in_window s e (i_checkIn i)) incomes)
                (filter (\<lambda>x. spec_in_window s e (e_date x)) expenses)"
    using g window_settlement_of_quarter [OF g, of incomes expenses] by blast
  show "\<exists>d. getDashboardByQuarterData env (Inr []) (Inr expenses) quarter = Inr d
            \<and> map_of d ''totalIncomes'' = Some (NumberV (Num 0))
            \<and> map_of d ''totalVATQuarterlyIncomes'' = Some (NumberV (Num 0))"
    using window_settlement_of_quarter [OF g, of "[]" expenses] spec_settlement_empty(1)
    by fastforce
  show "\<exists>d. getDashboardByQuarterData env (Inr incomes) (Inr []) quarter = Inr d
            \<and> map_of d ''totalExpenses'' = Some (NumberV (Num 0))
            \<and> map_of d ''totalVATQuarterlyExpenses'' = Some (NumberV (Num 0))"
    using window_settlement_of_quarter [OF g, of incomes "[]"] spec_settlement_empty(2)
    by fastforce
qed

lemma window_lists_of_quarter:
  assumes g: "getQuarterDates (currentYear env) None quarter
                = \<lparr>startOfQuarter = Some s, endOfQuarter = Some e\<rparr>"
  shows "\<exists>d. getDashboardByQuarterData env (Inr allIncomes) (Inr allExpenses) quarter = Inr d
          \<and> map_of d ''incomes''
              = Some (IncomesV (filter (\<lambda>i. spec_in_window s e (i_checkIn i)) allIncomes))
          \<and> map_of d ''expenses''
              = Some (ExpensesV (filter (\<lambda>x. spec_in_window s e (e_date x)) allExpenses))"
  unfolding getDashboardByQuarterData_def g
  by (simp add: Let_def Model_find_window)

text \<open>
  Claim C2. For every quarter in \<open>{1,2,3,4}\<close> of a current year whose months lie within
  the range of a \<^verbatim>\<open>Date\<close>, with \<open>{start, end}\<close> the window of that quarter in UTC
  milliseconds, the quarterly dashboard lists exactly the incomes whose check-in, and the
  expenses whose date, lies in \<open>[start, end]\<close>, both bounds included. The stored check-in
  and date are in seconds; such a timestamp lies in the window when its instant, 1000
  times the stored value, does. The check-out plays no part in the selection. A record
  at \<open>start\<close> or at \<open>end\<close> is in the window; a record one millisecond before \<open>start\<close> or
  one millisecond after \<open>end\<close> is not.
\<close>

theorem quarterly_window:
  assumes "quarter \<in> {1, 2, 3, 4}"
    and "- 271820 \<le> currentYear env" "currentYear env \<le> 275759"
  shows "\<exists>s e d. getQuarterDates (currentYear env) None quarter
                  = \<lparr>startOfQuarter = Some s, endOfQuarter = Some e\<rparr>
          \<and> getDashboardByQuarterData env (Inr allIncomes) (Inr allExpenses) quarter = Inr d
          \<and> map_of d ''incomes''
              = Some (IncomesV (filter (\<lambda>i. spec_in_window s e (i_checkIn i)) allIncomes))
          \<and> map_of d ''expenses''
              = Some (ExpensesV (filter (\<lambda>x. spec_in_window s e (e_date x)) allExpenses))
          \<and> spec_in_window s e (of_int s / 1000)
          \<and> spec_in_window s e (of_int e / 1000)
          \<and> \<not> spec_in_window s e (of_int (s - 1) / 1000)
          \<and> \<not> spec_in_window s e (of_int (e + 1) / 1000)"
proof -
  let ?s = "spec_first_instant_of_month (currentYear env) ((quarter - 1) * 3)"
  let ?e = "spec_last_millisecond_of_month (currentYear env) ((quarter - 1) * 3 + 2) - 999"
  have g: "getQuarterDates (currentYear env) None quarter
             = \<lparr>startOfQuarter = Some ?s, endOfQuarter = Some ?e\<rparr>"
    using assms by (rule getQuarterDates_spec)
  have lt: "?s < ?e" using assms(1) by (rule quarter_start_before_end)
  from window_lists_of_quarter [OF g, of allIncomes allExpenses] obtain d where
    d: "getDashboardByQuarterData env (Inr allIncomes) (Inr allExpenses) quarter = Inr d"
      "map_of d ''incomes''
         = Some (IncomesV (filter (\<lambda>i. spec_in_window ?s ?e (i_checkIn i)) allIncomes))"
      "map_of d ''expenses''
         = Some (ExpensesV (filter (\<lambda>x. spec_in_window ?s ?e (e_date x)) allExpenses))"
    by blast
  have w: "spec_in_window ?s ?e (of_int ?s / 1000)" "spec_in_window ?s ?e (of_int ?e / 1000)"
    "\<not> spec_in_window ?s ?e (of_int (?s - 1) / 1000)"
    "\<not> spec_in_window ?s ?e (of_int (?e + 1) / 1000)"
    using lt by (simp_all add: spec_in_window_def)
  show ?thesis
    apply (rule exI [of _ ?s], rule exI [of _ ?e], rule exI [of _ d])
    apply (intro conjI)
           apply (rule g)
          apply (rule d(1))
         apply (rule d(2))
        apply (rule d(3))
       apply (rule w(1))
      apply (rule w(2))
     apply (rule w(3))
    apply (rule w(4))
    done
qed

section \<open>Update services\<close>

lemma truthy_idem [simp]:
  "truthy_num (truthy_num x) = truthy_num x"
  "truthy_str (truthy_str s) = truthy_str s"
  "truthy_bool (truthy_bool b) = truthy_bool b"
  by (simp_all add: truthy_num_def truthy_str_def truthy_bool_def split: option.split)

lemma truthy_falsy [simp]:
  "truthy_num (Some 0) = None" "truthy_num None = None"
  "truthy_str (Some []) = None" "truthy_str None = None"
  "truthy_bool (Some False) = None" "truthy_bool None = None"
  by (simp_all add: truthy_num_def truthy_str_def truthy_bool_def)

lemma updateExpenseById_normalised:
  "updateExpenseById env db expenseId req
     = updateExpenseById env db expenseId (absent_if_falsy_expense req)"
  by (simp add: updateExpenseById_def absent_if_falsy_expense_def cong: option.case_cong bool.case_cong)

lemma updateIncomeById_normalised:
  "updateIncomeById env db incomeId req
     = updateIncomeById env db incomeId ((absent_if_falsy_income req)\<lparr>iq_checkIn := iq_checkIn req\<rparr>)"
  by (simp add: updateIncomeById_def absent_if_falsy_income_def moment_opt_def cong: option.case_cong bool.case_cong)

lemma updateIncomeById_normalised_checkIn:
  "truthy_num (iq_checkOut req) = None \<Longrightarrow>
   updateIncomeById env db incomeId req
     = updateIncomeById env db incomeId (absent_if_falsy_income req)"
  by (simp add: updateIncomeById_def absent_if_falsy_income_def moment_opt_def cong: option.case_cong bool.case_cong)

lemma updateIncomeById_ok:
  assumes "updateIncomeById env db incomeId req = (Inr doc, db')"
  shows "\<exists>old. find (\<lambda>d. i_id d = incomeId) (db_incomes db) = Some old
           \<and> truthy_str (iq_rateId req) = None
           \<and> income_update (tz env) (db_rates db) old
                 \<lparr>ui_apartmentId = truthy_str (iq_apartmentId req),
                  ui_intermediaryId = truthy_str (iq_intermediaryId req),
                  ui_rateId = None,
                  ui_checkIn = truthy_num (iq_checkIn req),
                  ui_checkOut = truthy_num (iq_checkOut req),
                  ui_clientName = truthy_str (iq_clientName req),
                  ui_clientNif = truthy_str (iq_clientNif req),
                  ui_clientPhone = truthy_str (iq_clientPhone req),
                  ui_numberOfPeople = truthy_num (iq_numberOfPeople req),
                  ui_discount = truthy_num (iq_discount req),
                  ui_observations = truthy_str (iq_observations req)\<rparr> = Inr doc
           \<and> db' = db\<lparr>db_incomes := save_income doc (db_incomes db)\<rparr>"
  using assms unfolding updateIncomeById_def
  by (auto simp add: Let_def split: option.splits bool.splits if_splits sum.splits)


lemma income_update_shape:
  assumes "income_update z rates old data = Inr doc"
  shows "\<exists>n a b. doc = (income_assigned old data)\<lparr>i_nights := n, i_totalIva := a,
                                                   i_totalInvoice := b\<rparr>"
proof (cases "Rate_findOne rates (i_rateId (income_assigned old data))")
  case None
  with assms show ?thesis by (simp add: income_update_eq)
next
  case (Some rate)
  with assms have "(income_assigned old data)
                 \<lparr>i_nights := income_nights z (i_checkIn (income_assigned old data))
                                 (i_checkOut (income_assigned old data)),
                  i_totalIva := fst (discount_then_vat (Num (r_pricePerNight rate))
                       (Num (i_numberOfPeople (income_assigned old data)))
                       (Num (of_int (income_nights z (i_checkIn (income_assigned old data))
                                 (i_checkOut (income_assigned old data)))))
                       (Num (i_discount (income_assigned old data))) (Num (r_iva rate))),
                  i_totalInvoice := snd (discount_then_vat (Num (r_pricePerNight rate))
                       (Num (i_numberOfPeople (income_assigned old data)))
                       (Num (of_int (income_nights z (i_checkIn (income_assigned old data))
                                 (i_checkOut (income_assigned old data)))))
                       (Num (i_discount (income_assigned old data))) (Num (r_iva rate)))\<rparr> = doc"
    by (simp add: income_update_eq income_validate_Inr)
  then show ?thesis by (intro exI) (rule sym)
qed

lemma income_update_fields:
  assumes "income_update z rates old data = Inr doc"
  shows "i_id doc = i_id old"
    "i_apartmentId doc = own (ui_apartmentId data) (i_apartmentId old)"
    "i_intermediaryId doc = own (ui_intermediaryId data) (i_intermediaryId old)"
    "i_rateId doc = own (ui_rateId data) (i_rateId old)"
    "i_checkIn doc = own (ui_checkIn data) (i_checkIn old)"
    "i_checkOut doc = own (ui_checkOut data) (i_checkOut old)"
    "i_clientName doc = own (ui_clientName data) (i_clientName old)"
    "i_clientNif doc = own (ui_clientNif data) (i_clientNif old)"
    "i_clientPhone doc = own (ui_clientPhone data) (i_clientPhone old)"
    "i_numberOfPeople doc = own (ui_numberOfPeople data) (i_numberOfPeople old)"
    "i_discount doc = own (ui_discount data) (i_discount old)"
    "i_observations doc
       = (case ui_observations data of None \<Rightarrow> i_observations old | Some v \<Rightarrow> Some v)"
proof -
  from income_update_shape [OF assms] obtain n a b where
    d: "doc = (income_assigned old data)\<lparr>i_nights := n, i_totalIva := a, i_totalInvoice := b\<rparr>"
    by blast
  show "i_id doc = i_id old"
    "i_apartmentId doc = own (ui_apartmentId data) (i_apartmentId old)"
    "i_intermediaryId doc = own (ui_intermediaryId data) (i_intermediaryId old)"
    "i_rateId doc = own (ui_rateId data) (i_rateId old)"
    "i_checkIn doc = own (ui_checkIn data) (i_checkIn old)"
    "i_checkOut doc = own (ui_checkOut data) (i_checkOut old)"
    "i_clientName doc = own (ui_clientName data) (i_clientName old)"
    "i_clientNif doc = own (ui_clientNif data) (i_clientNif old)"
    "i_clientPhone doc = own (ui_clientPhone data) (i_clientPhone old)"
    "i_numberOfPeople doc = own (ui_numberOfPeople data) (i_numberOfPeople old)"
    "i_discount doc = own (ui_discount data) (i_discount old)"
    "i_observations doc
       = (case ui_observations data of None \<Rightarrow> i_observations old | Some v \<Rightarrow> Some v)"
    unfolding d by (simp_all add: income_assigned_fields)
qed

lemma updateExpenseById_frame:
  assumes "updateExpenseById env db expenseId req = (Inr doc, db')"
  shows "\<exists>old. find (\<lambda>d. e_id d = expenseId) (db_expenses db) = Some old
           \<and> db' = db\<lparr>db_expenses :=
                      map (\<lambda>d. if e_id d = expenseId then doc else d) (db_expenses db)\<rparr>
           \<and> e_id doc = e_id old
           \<and> e_concept doc = own (truthy_str (q_concept req)) (e_concept old)
           \<and> e_apartmentId doc = own (truthy_str (q_apartmentId req)) (e_apartmentId old)
           \<and> e_date doc = own (truthy_num (q_date req)) (e_date old)
           \<and> e_providerNif doc
               = (case truthy_str (q_providerNif req) of
                    None \<Rightarrow> e_providerNif old
                  | Some v \<Rightarrow> Some v)
           \<and> e_expense doc = own (truthy_num (q_expense req)) (e_expense old)
           \<and> e_iva doc = own (truthy_num (q_iva req)) (e_iva old)
           \<and> e_paid doc = own (truthy_bool (q_paid req)) (e_paid old)"
proof -
  from updateExpenseById_ok [OF assms] obtain old where
    f: "find (\<lambda>d. e_id d = expenseId) (db_expenses db) = Some old"
    and d: "doc = expense_update old
                 \<lparr>ud_apartmentId = truthy_str (q_apartmentId req),
                  ud_concept = truthy_str (q_concept req),
                  ud_date = truthy_num (q_date req),
                  ud_providerNif = truthy_str (q_providerNif req),
                  ud_expense = truthy_num (q_expense req),
                  ud_iva = truthy_num (q_iva req),
                  ud_paid = truthy_bool (q_paid req)\<rparr>"
    and s: "db' = db\<lparr>db_expenses := save_expense doc (db_expenses db)\<rparr>"
    by blast
  have i: "e_id doc = expenseId"
    using find_Some_member [OF f] unfolding d by (simp add: expense_update_fields)
  have s': "db' = db\<lparr>db_expenses :=
                      map (\<lambda>d. if e_id d = expenseId then doc else d) (db_expenses db)\<rparr>"
    unfolding s save_expense_def i ..
  show ?thesis
    by (rule exI [of _ old], intro conjI, rule f, rule s')
      (simp_all add: d expense_update_fields)
qed

lemma updateIncomeById_frame:
  assumes "updateIncomeById env db incomeId req = (Inr doc, db')"
  shows "\<exists>old. find (\<lambda>d. i_id d = incomeId) (db_incomes db) = Some old
           \<and> db' = db\<lparr>db_incomes :=
                      map (\<lambda>d. if i_id d = incomeId then doc else d) (db_incomes db)\<rparr>
           \<and> i_id doc = i_id old
           \<and> i_apartmentId doc = own (truthy_str (iq_apartmentId req)) (i_apartmentId old)
           \<and> i_intermediaryId doc
               = own (truthy_str (iq_intermediaryId req)) (i_intermediaryId old)
           \<and> i_rateId doc = i_rateId old
           \<and> i_checkIn doc = own (truthy_num (iq_checkIn req)) (i_checkIn old)
           \<and> i_checkOut doc = own (truthy_num (iq_checkOut req)) (i_checkOut old)
           \<and> i_clientName doc = own (truthy_str (iq_clientName req)) (i_clientName old)
           \<and> i_clientNif doc = own (truthy_str (iq_clientNif req)) (i_clientNif old)
           \<and> i_clientPhone doc = own (truthy_str (iq_clientPhone req)) (i_clientPhone old)
           \<and> i_numberOfPeople doc
               = own (truthy_num (iq_numberOfPeople req)) (i_numberOfPeople old)
           \<and> i_discount doc = own (truthy_num (iq_discount req)) (i_discount old)
           \<and> i_observations doc
               = (case truthy_str (iq_observations req) of
                    None \<Rightarrow> i_observations old
                  | Some v \<Rightarrow> Some v)"
  using updateIncomeById_ok [OF assms]
proof (elim exE conjE)
  fix old
  assume f: "find (\<lambda>d. i_id d = incomeId) (db_incomes db) = Some old"
    and u: "income_update (tz env) (db_rates db) old
                 \<lparr>ui_apartmentId = truthy_str (iq_apartmentId req),
                  ui_intermediaryId = truthy_str (iq_intermediaryId req),
                  ui_rateId = None,
                  ui_checkIn = truthy_num (iq_checkIn req),
                  ui_checkOut = truthy_num (iq_checkOut req),
                  ui_clientName = truthy_str (iq_clientName req),
                  ui_clientNif = truthy_str (iq_clientNif req),
                  ui_clientPhone = truthy_str (iq_clientPhone req),
                  ui_numberOfPeople = truthy_num (iq_numberOfPeople req),
                  ui_discount = truthy_num (iq_discount req),
                  ui_observations = truthy_str (iq_observations req)\<rparr> = Inr doc"
    and s: "db' = db\<lparr>db_incomes := save_income doc (db_incomes db)\<rparr>"
  note fl = income_update_fields [OF u]
  have i: "i_id doc = incomeId"
    using find_Some_member [OF f] fl(1) by simp
  have s': "db' = db\<lparr>db_incomes :=
                      map (\<lambda>d. if i_id d = incomeId then doc else d) (db_incomes db)\<rparr>"
    unfolding s save_income_def i ..
  show ?thesis
    by (rule exI [of _ old], intro conjI, rule f, rule s')
      (simp_all only: fl income_updateData.simps own_simps simp_thms)
qed

lemma updateExpenseById_failed:
  "updateExpenseById env db expenseId req = (Inl err, db') \<Longrightarrow> db' = db"
  unfolding updateExpenseById_def
  by (auto simp add: Let_def split: option.splits bool.splits if_splits)

lemma updateIncomeById_failed:
  "updateIncomeById env db incomeId req = (Inl err, db') \<Longrightarrow> db' = db"
  unfolding updateIncomeById_def
  by (auto simp add: Let_def split: option.splits bool.splits if_splits sum.splits)

section \<open>Falsy values in update requests\<close>


lemma sample_env_fields:
  "tz sample_env = zone_utc" "now sample_env = 1720000000000"
  "currentYear sample_env = 2024" "currentMonth sample_env = 6"
  by (simp_all add: sample_env_def)

lemma sample_db_fields:
  "db_apartments sample_db = [''a1'']" "db_intermediaries sample_db = [''m1'']"
  "db_rates sample_db = [sample_rate]" "db_incomes sample_db = []" "db_expenses sample_db = []"
  "db_expenses expense_db = [stored_expense]" "db_rates expense_db = [sample_rate]"
  "db_apartments expense_db = [''a1'']"
  "db_incomes income_db = [stored_income]" "db_rates income_db = [sample_rate]"
  "db_apartments income_db = [''a1'']" "db_intermediaries income_db = [''m1'']"
  by (simp_all add: sample_db_def expense_db_def income_db_def)

lemma stored_expense_fields:
  "e_id stored_expense = ''e1''" "e_concept stored_expense = ''cleaning''"
  "e_expense stored_expense = 100" "e_iva stored_expense = 21" "e_paid stored_expense = True"
  by (simp_all add: stored_expense_def)

lemma stored_income_fields:
  "i_id stored_income = ''i1''" "i_rateId stored_income = ''r1''"
  "i_clientName stored_income = ''Ana''" "i_discount stored_income = 10"
  "i_checkIn stored_income = 1718920414" "i_checkOut stored_income = 1719179614"
  "i_numberOfPeople stored_income = 2"
  "i_clientNif stored_income = ''00000000T''" "i_clientPhone stored_income = ''600000000''"
  by (simp_all add: stored_income_def)

lemma find_stored:
  "find (\<lambda>d. e_id d = ''e1'') [stored_expense] = Some stored_expense"
  "find (\<lambda>d. i_id d = ''i1'') [stored_income] = Some stored_income"
  by (simp_all add: stored_expense_fields stored_income_fields)

section \<open>The theorems on the sample store\<close>

text \<open>The expense theorem at an update of the stored expense that sets the VAT to 10.\<close>

theorem expense_totals_witness:
  "\<exists>doc db'. updateExpenseById sample_env expense_db ''e1''
                (empty_expense_request\<lparr>q_iva := Some 10\<rparr>) = (Inr doc, db')
       \<and> (e_totalIva doc, e_totalInvoice doc) = spec_expenseTotals (e_expense doc) (e_iva doc)
       \<and> doc \<in> set (db_expenses db')
       \<and> e_expense doc = 100 \<and> e_iva doc = 10
       \<and> e_totalIva doc = Num 10 \<and> e_totalInvoice doc = Num 110"
proof -
  let ?data = "\<lparr>ud_apartmentId = None, ud_concept = None, ud_date = None, ud_providerNif = None,
                ud_expense = None, ud_iva = Some 10, ud_paid = None\<rparr>"
  let ?doc = "expense_update stored_expense ?data"
  let ?db = "expense_db\<lparr>db_expenses := save_expense ?doc [stored_expense]\<rparr>"
  have ev: "updateExpenseById sample_env expense_db ''e1''
              (empty_expense_request\<lparr>q_iva := Some 10\<rparr>) = (Inr ?doc, ?db)"
    unfolding updateExpenseById_def sample_db_fields find_stored
    by (simp add: empty_expense_request_def truthy_num_def Let_def)
  have inv: "(e_totalIva ?doc, e_totalInvoice ?doc) = spec_expenseTotals (e_expense ?doc) (e_iva ?doc)"
    and mem: "?doc \<in> set (db_expenses ?db)"
    using expense_totals [where env = sample_env and db = expense_db and expenseId = "''e1''"
          and req = "empty_expense_request\<lparr>q_iva := Some 10\<rparr>",
        THEN conjunct2, THEN conjunct2, THEN conjunct1, rule_format, OF ev]
    by simp_all
  have v: "e_expense ?doc = 100" "e_iva ?doc = 10" "e_totalIva ?doc = Num 10"
    "e_totalInvoice ?doc = Num 110"
    by (simp_all add: expense_update_fields stored_expense_fields ieee_eval)
  show ?thesis
    by (rule exI [of _ ?doc], rule exI [of _ ?db]) (intro conjI ev inv mem v)
qed



lemma sample_quarter:
  "getQuarterDates 2024 None 1
     = \<lparr>startOfQuarter = Some 1704067200000, endOfQuarter = Some 1711929599000\<rparr>"
  by (simp add: gqd_eval)

text \<open>
  The window theorem at the first quarter of 2024: of the sample records, those at the
  start and at the end of the window are listed; those one millisecond outside, and the
  income whose check-out alone lies in the window, are not.
\<close>

theorem quarterly_window_witness:
  "(1::int) \<in> {1, 2, 3, 4}
   \<and> - 271820 \<le> currentYear sample_env \<and> currentYear sample_env \<le> 275759
   \<and> (\<exists>d. getDashboardByQuarterData sample_env (Inr window_incomes) (Inr window_expenses) 1 = Inr d
        \<and> map_of d ''incomes''
            = Some (IncomesV
                [stored_income\<lparr>i_id := ''at start'', i_checkIn := 1704067200,
                               i_checkOut := 1704240000\<rparr>,
                 stored_income\<lparr>i_id := ''at end'', i_checkIn := 1711929599,
                               i_checkOut := 1712102400\<rparr>])
        \<and> map_of d ''expenses''
            = Some (ExpensesV
                [stored_expense\<lparr>e_id := ''at start'', e_date := 1704067200\<rparr>,
                 stored_expense\<lparr>e_id := ''at end'', e_date := 1711929599\<rparr>]))"
proof -
  have h: "(1::int) \<in> {1, 2, 3, 4}"
    "- 271820 \<le> currentYear sample_env" "currentYear sample_env \<le> 275759"
    by (simp_all add: sample_env_fields)
  from quarterly_window [OF h, of window_incomes window_expenses]
  obtain s e d where
    g: "getQuarterDates (currentYear sample_env) None 1
          = \<lparr>startOfQuarter = Some s, endOfQuarter = Some e\<rparr>"
    and r: "getDashboardByQuarterData sample_env (Inr window_incomes) (Inr window_expenses) 1 = Inr d"
    and i: "map_of d ''incomes''
              = Some (IncomesV (filter (\<lambda>i. spec_in_window s e (i_checkIn i)) window_incomes))"
    and x: "map_of d ''expenses''
              = Some (ExpensesV (filter (\<lambda>x. spec_in_window s e (e_date x)) window_expenses))"
    by (elim exE conjE)
  from g have se: "s = 1704067200000" "e = 1711929599000"
    by (simp_all add: sample_env_fields sample_quarter)
  have "filter (\<lambda>i. spec_in_window s e (i_checkIn i)) window_incomes
          = [stored_income\<lparr>i_id := ''at start'', i_checkIn := 1704067200,
                               i_checkOut := 1704240000\<rparr>,
             stored_income\<lparr>i_id := ''at end'', i_checkIn := 1711929599,
                               i_checkOut := 1712102400\<rparr>]"
    unfolding se by (simp add: window_incomes_def spec_in_window_def)
  moreover have "filter (\<lambda>x. spec_in_window s e (e_date x)) window_expenses
          = [stored_expense\<lparr>e_id := ''at start'', e_date := 1704067200\<rparr>,
             stored_expense\<lparr>e_id := ''at end'', e_date := 1711929599\<rparr>]"
    unfolding se by (simp add: window_expenses_def spec_in_window_def)
  ultimately show ?thesis using h r i x by simp
qed


lemma window_filtered:
  "filter (\<lambda>i. spec_in_window 1704067200000 1711929599000 (i_checkIn i)) window_incomes
          = [stored_income\<lparr>i_id := ''at start'', i_checkIn := 1704067200,
                               i_checkOut := 1704240000\<rparr>,
             stored_income\<lparr>i_id := ''at end'', i_checkIn := 1711929599,
                               i_checkOut := 1712102400\<rparr>]"
  "filter (\<lambda>x. spec_in_window 1704067200000 1711929599000 (e_date x)) window_expenses
          = [stored_expense\<lparr>e_id := ''at start'', e_date := 1704067200\<rparr>,
             stored_expense\<lparr>e_id := ''at end'', e_date := 1711929599\<rparr>]"
  by (simp_all add: window_incomes_def window_expenses_def spec_in_window_def)

text \<open>
  The settlement theorem at the first quarter of 2024 on the sample records: the two
  incomes and the two expenses in the window are listed and added up. The total of the
  incomes is the double of 653.4, the total of the expenses is 242 and the result is the
  double of 411.4.
\<close>

theorem dashboard_settlement_witness:
  "(1::int) \<in> {1, 2, 3, 4}
   \<and> - 271820 \<le> currentYear sample_env \<and> currentYear sample_env \<le> 275759
   \<and> (\<exists>d. getDashboardByQuarterData sample_env (Inr window_incomes) (Inr window_expenses) 1 = Inr d
        \<and> spec_settlement d
            [stored_income\<lparr>i_id := ''at start'', i_checkIn := 1704067200,
                           i_checkOut := 1704240000\<rparr>,
             stored_income\<lparr>i_id := ''at end'', i_checkIn := 1711929599,
                           i_checkOut := 1712102400\<rparr>]
            [stored_expense\<lparr>e_id := ''at start'', e_date := 1704067200\<rparr>,
             stored_expense\<lparr>e_id := ''at end'', e_date := 1711929599\<rparr>]
        \<and> map_of d ''totalIncomes'' = Some (NumberV (round_double (3267 / 5)))
        \<and> map_of d ''totalExpenses'' = Some (NumberV (Num 242))
        \<and> map_of d ''result'' = Some (NumberV (round_double (2057 / 5))))"
proof -
  have h: "(1::int) \<in> {1, 2, 3, 4}"
    "- 271820 \<le> currentYear sample_env" "currentYear sample_env \<le> 275759"
    by (simp_all add: sample_env_fields)
  from dashboard_settlement [of sample_env window_incomes window_expenses 1,
      THEN conjunct2, THEN conjunct2, THEN conjunct2, rule_format, OF h, THEN conjunct1]
  obtain s e d where
    g: "getQuarterDates (currentYear sample_env) None 1
          = \<lparr>startOfQuarter = Some s, endOfQuarter = Some e\<rparr>"
    and r: "getDashboardByQuarterData sample_env (Inr window_incomes) (Inr window_expenses) 1 = Inr d"
    and t: "spec_settlement d (filter (\<lambda>i. spec_in_window s e (i_checkIn i)) window_incomes)
                (filter (\<lambda>x. spec_in_window s e (e_date x)) window_expenses)"
    by (elim exE conjE)
  from g have se: "s = 1704067200000" "e = 1711929599000"
    by (simp_all add: sample_env_fields sample_quarter)
  note t' = t [unfolded se window_filtered]
  have sums: "spec_sum [Num (5747367180710707 / 17592186044416),
                        Num (5747367180710707 / 17592186044416)] = round_double (3267 / 5)"
    "spec_sum [Num 121, Num 121] = Num 242"
    "js_sub (round_double (3267 / 5)) (Num 242) = round_double (2057 / 5)"
    by (simp_all add: spec_sum_def ieee_eval)
  have v: "map_of d ''totalIncomes'' = Some (NumberV (round_double (3267 / 5)))"
    "map_of d ''totalExpenses'' = Some (NumberV (Num 242))"
    "map_of d ''result'' = Some (NumberV (round_double (2057 / 5)))"
    using t' sums
    by (simp_all add: spec_settlement_def Let_def stored_income_def stored_expense_def)
  show ?thesis
    by (intro conjI h exI [of _ d] r t' v)
qed

lemma checkin_zero_accepted:
  "updateIncomeById sample_env income_db ''i1'' checkin_zero_update = (Inr stored_income, income_db)"
proof -
  let ?data = "\<lparr>ui_apartmentId = None, ui_intermediaryId = None, ui_rateId = None,
                ui_checkIn = None, ui_checkOut = Some 1719179614, ui_clientName = None,
                ui_clientNif = None, ui_clientPhone = None, ui_numberOfPeople = None,
                ui_discount = None, ui_observations = None\<rparr>"
  have a: "income_assigned stored_income ?data = stored_income"
    by (simp add: income_assigned_def stored_income_def)
  have u: "income_update zone_utc [sample_rate] stored_income ?data = Inr stored_income"
    unfolding income_update_eq a
    by (simp add: stored_income_def sample_rate_found income_nights_eq three_nights_count
        sample_rate_fields sample_totals income_validate_Inr)
  have c: "\<not> isAfter (startOf_day (moment zone_utc (Millis 0)))
                     (endOf_day (moment zone_utc (Millis 1719179614)))"
    by (simp add: isAfter_def days_eval)
  have t: "truthy_num (Some 1719179614) = Some 1719179614"
    by (simp add: truthy_num_def)
  have s: "income_db\<lparr>db_incomes := save_income stored_income [stored_income]\<rparr> = income_db"
    by (simp add: save_income_def income_db_def)
  show ?thesis
    unfolding updateIncomeById_def sample_env_fields sample_db_fields find_stored
    by (simp add: checkin_zero_update_def empty_income_request_def moment_opt_def
        sample_env_fields t c u s)
qed

lemma checkout_only_refused:
  "updateIncomeById sample_env income_db ''i1'' checkout_only_update
     = (Inl (NOT_FOUND ''Check in date must be before tha check out date''), income_db)"
proof -
  have c: "isAfter (startOf_day (moment_now sample_env))
                   (endOf_day (moment zone_utc (Millis 1719179614)))"
    by (simp add: isAfter_def moment_now_def sample_env_fields days_eval)
  have t: "truthy_num (Some 1719179614) = Some 1719179614"
    by (simp add: truthy_num_def)
  show ?thesis
    unfolding updateIncomeById_def sample_db_fields find_stored
    by (simp add: checkout_only_update_def empty_income_request_def moment_opt_def t c
        sample_env_fields(1))
qed


section \<open>Nights in the host's calendar\<close>

text \<open>
  With the calendar day of a wall-clock reading \<open>w\<close> being \<open>w div msPerDay\<close>, the result
  is the number of days from the check-in day to the check-out day, and one more than
  that (negative) number when the check-out day is the earlier one. So the result is 0 on
  the same day and 1 on the next day, and it does not decrease when the check-out moves
  later, in the calendar of whatever zone the host has.
\<close>

lemma startOf_day_div: "startOf_day w = msPerDay * (w div msPerDay)"
  by (simp add: startOf_day_def minus_mod_eq_mult_div)

lemma endOf_day_div: "endOf_day w = msPerDay * (w div msPerDay) + (msPerDay - 1)"
  by (simp add: endOf_day_def minus_mod_eq_mult_div)

lemma absFloor_div_forward:
  assumes "0 \<le> k"
  shows "absFloor_div (msPerDay * k + (msPerDay - 1)) msPerDay = k"
proof -
  have "0 \<le> msPerDay * k" using assms by (simp add: msPerDay_def)
  then have p: "\<not> msPerDay * k + (msPerDay - 1) < 0" by (simp add: msPerDay_def)
  have "(msPerDay * k + (msPerDay - 1)) div msPerDay = k"
    by (rule int_div_pos_eq [of _ _ _ "msPerDay - 1"]) (simp_all add: msPerDay_def)
  with p show ?thesis unfolding absFloor_div_def by (simp only: if_False)
qed

lemma absFloor_div_backward:
  assumes "0 < k"
  shows "absFloor_div (- (msPerDay * (k - 1) + 1)) msPerDay = 1 - k"
proof -
  have "0 \<le> msPerDay * (k - 1)" using assms by (simp add: msPerDay_def)
  then have n: "- (msPerDay * (k - 1) + 1) < 0" by simp
  have "(msPerDay * (k - 1) + 1) div msPerDay = k - 1"
    by (rule int_div_pos_eq [of _ _ _ 1]) (simp_all add: msPerDay_def)
  then have "- ((msPerDay * (k - 1) + 1) div msPerDay) = 1 - k"
    by (simp only:)
  then have "- ((- (- (msPerDay * (k - 1) + 1))) div msPerDay) = 1 - k"
    by (simp only: minus_minus)
  with n show ?thesis unfolding absFloor_div_def by (simp only: if_True)
qed

lemma calculateDaysDifference_days:
  "calculateDaysDifference z checkIn checkOut =
     (let dayIn = moment z checkIn div msPerDay;
          dayOut = moment z checkOut div msPerDay
      in if dayIn \<le> dayOut then dayOut - dayIn else dayOut - dayIn + 1)"
proof -
  define dayIn where "dayIn = moment z checkIn div msPerDay"
  define dayOut where "dayOut = moment z checkOut div msPerDay"
  have c: "calculateDaysDifference z checkIn checkOut
             = absFloor_div (msPerDay * dayOut + (msPerDay - 1) - msPerDay * dayIn) msPerDay"
    by (simp add: calculateDaysDifference_def startOf_day_div endOf_day_div diff_days_def
        dayIn_def dayOut_def Let_def)
  show ?thesis
  proof (cases "dayIn \<le> dayOut")
    case True
    have e: "msPerDay * dayOut + (msPerDay - 1) - msPerDay * dayIn
            = msPerDay * (dayOut - dayIn) + (msPerDay - 1)"
      by (simp add: algebra_simps)
    have k: "0 \<le> dayOut - dayIn" using True by simp
    have "calculateDaysDifference z checkIn checkOut = dayOut - dayIn"
      unfolding c e using k by (rule absFloor_div_forward)
    then show ?thesis using True by (simp add: Let_def dayIn_def dayOut_def)
  next
    case False
    have e: "msPerDay * dayOut + (msPerDay - 1) - msPerDay * dayIn
            = - (msPerDay * ((dayIn - dayOut) - 1) + 1)"
      by (simp add: algebra_simps)
    have k: "0 < dayIn - dayOut" using False by simp
    have "calculateDaysDifference z checkIn checkOut = 1 - (dayIn - dayOut)"
      unfolding c e using k by (rule absFloor_div_backward)
    then show ?thesis using False by (simp add: Let_def dayIn_def dayOut_def)
  qed
qed

lemma calculateDaysDifference_same_day:
  "moment z checkIn div msPerDay = moment z checkOut div msPerDay \<Longrightarrow>
   calculateDaysDifference z checkIn checkOut = 0"
  by (simp add: calculateDaysDifference_days)

lemma calculateDaysDifference_next_day:
  "moment z checkOut div msPerDay = moment z checkIn div msPerDay + 1 \<Longrightarrow>
   calculateDaysDifference z checkIn checkOut = 1"
  by (simp add: calculateDaysDifference_days)

lemma calculateDaysDifference_mono:
  assumes "moment z checkOut \<le> moment z checkOut'"
  shows "calculateDaysDifference z checkIn checkOut \<le> calculateDaysDifference z checkIn checkOut'"
proof -
  have "moment z checkOut div msPerDay \<le> moment z checkOut' div msPerDay"
    using assms by (simp add: zdiv_mono1 msPerDay_def)
  then show ?thesis by (simp add: calculateDaysDifference_days Let_def)
qed

text \<open>
  Claim C6 says that the nights are counted in the fixed Europe/Madrid calendar and that
  \<open>nightsBetween(1718920414000, 1719356014000) = 6\<close>. \<open>calculateDaysDifference\<close> counts in
  the calendar of the host: on a host in UTC the two instants are 20 June 2024 21:53:34
  and 25 June 2024 22:53:34 and the result is 5; on a host two hours ahead of UTC the
  check-out falls on 26 June and the result is 6.
\<close>

theorem calculateDaysDifference_host_zone:
  "calculateDaysDifference zone_utc (Millis 1718920414000) (Millis 1719356014000) = 5
   \<and> calculateDaysDifference zone_plus_two (Millis 1718920414000) (Millis 1719356014000) = 6"
  by (simp add: days_eval)

section \<open>A stay that ends before it starts\<close>

lemma reversed_stay_fields:
  "iq_apartmentId reversed_stay = Some ''a1''" "iq_intermediaryId reversed_stay = Some ''m1''"
  "iq_rateId reversed_stay = Some ''r1''" "iq_checkIn reversed_stay = Some 1719356014"
  "iq_checkOut reversed_stay = Some 1718920414" "iq_clientName reversed_stay = Some ''Ana''"
  "iq_clientNif reversed_stay = Some ''00000000T''"
  "iq_clientPhone reversed_stay = Some ''600000000''"
  "iq_numberOfPeople reversed_stay = Some 2" "iq_discount reversed_stay = Some 10"
  "iq_observations reversed_stay = None"
  by (simp_all add: reversed_stay_def)

lemma sample_truthy:
  "truthy_str (Some ''a1'') = Some ''a1''" "truthy_str (Some ''m1'') = Some ''m1''"
  "truthy_str (Some ''r1'') = Some ''r1''" "truthy_str (Some ''Ana'') = Some ''Ana''"
  "truthy_str (Some ''00000000T'') = Some ''00000000T''"
  "truthy_str (Some ''600000000'') = Some ''600000000''"
  "truthy_num (Some 1719356014) = Some 1719356014"
  "truthy_num (Some 1718920414) = Some 1718920414"
  "truthy_num (Some 1719900000) = Some 1719900000"
  "truthy_num (Some 2) = Some 2"
  by (simp_all add: truthy_str_def truthy_num_def)

lemma reversed_not_after:
  "\<not> isAfter (startOf_day (moment zone_utc (Millis 1719356014)))
              (endOf_day (moment zone_utc (Millis 1718920414)))"
  by (simp add: isAfter_def days_eval)

lemma reversed_nights: "income_nights zone_utc 1719356014 1718920414 = - 4"
  by (simp add: income_nights_eq days_eval)

lemma moved_nights: "income_nights zone_utc 1719900000 1719179614 = - 8"
  by (simp add: income_nights_eq days_eval)

lemma reversed_totals:
  "discount_then_vat (Num 50) (Num 2) (Num (- 4)) (Num 10) (Num 21)
     = (Num (- (2659938529915699 / 35184372088832)), Num (- (3831578120473805 / 8796093022208)))"
  by (simp add: discount_then_vat_def ieee_eval)

lemma moved_totals:
  "discount_then_vat (Num 50) (Num 2) (Num (- 8)) (Num 10) (Num 21)
     = (Num (- (2659938529915699 / 17592186044416)), Num (- (3831578120473805 / 4398046511104)))"
  by (simp add: discount_then_vat_def ieee_eval)

lemma reversed_doubles:
  "round_double (- (2178 / 5)) = Num (- (3831578120473805 / 8796093022208))"
  "round_double (- (4356 / 5)) = Num (- (3831578120473805 / 4398046511104))"
  by (simp_all add: ieee_eval)

lemma find_sample_rate: "find (\<lambda>r. r_id r = ''r1'') [sample_rate] = Some sample_rate"
  by (simp add: sample_rate_fields)

text \<open>
  Claim C7 says that a request with \<open>checkOut \<le> checkIn\<close> is rejected before nights and
  totals are computed. The creation service accepts a stay whose check-out is five days
  before its check-in and stores a document with \<open>-4\<close> nights and a negative invoice, the
  double of -435.6:
  its check compares the start of the check-in day with the end of the check-out day,
  and reads the two timestamps, which are in seconds, as milliseconds. The update
  service accepts a check-in after the stored check-out, which it does not compare, and
  stores \<open>-8\<close> nights and an invoice of the double of -871.2.
\<close>

theorem createNewIncome_accepts_reversed_stay:
  "(\<exists>doc. createNewIncome sample_env sample_db ''i1'' reversed_stay
            = (Inr doc, sample_db\<lparr>db_incomes := [doc]\<rparr>)
         \<and> i_checkIn doc = 1719356014 \<and> i_checkOut doc = 1718920414
         \<and> i_nights doc = - 4 \<and> i_totalInvoice doc = round_double (- (2178 / 5)))
   \<and> (\<exists>doc. updateIncomeById sample_env income_db ''i1''
              (empty_income_request\<lparr>iq_checkIn := Some 1719900000\<rparr>)
            = (Inr doc, income_db\<lparr>db_incomes := [doc]\<rparr>)
         \<and> i_checkIn doc = 1719900000 \<and> i_checkOut doc = 1719179614
         \<and> i_nights doc = - 8 \<and> i_totalInvoice doc = round_double (- (4356 / 5)))"
proof (rule conjI)
  let ?doc = "\<lparr>i_id = ''i1'', i_apartmentId = ''a1'', i_intermediaryId = ''m1'',
               i_rateId = ''r1'', i_checkIn = 1719356014, i_checkOut = 1718920414,
               i_nights = - 4, i_clientName = ''Ana'', i_clientNif = ''00000000T'',
               i_clientPhone = ''600000000'', i_numberOfPeople = 2, i_discount = 10,
               i_totalIva = Num (- (2659938529915699 / 35184372088832)),
               i_totalInvoice = Num (- (3831578120473805 / 8796093022208)),
               i_observations = None\<rparr>"
  have c: "income_createNewIncome zone_utc [sample_rate] ''i1''
             \<lparr>n_apartmentId = ''a1'', n_intermediaryId = ''m1'', n_rateId = ''r1'',
              n_checkIn = 1719356014, n_checkOut = 1718920414, n_clientName = ''Ana'',
              n_clientNif = ''00000000T'', n_clientPhone = ''600000000'',
              n_numberOfPeople = 2, n_discount = Some 10, n_observations = None\<rparr>
           = Inr ?doc"
    by (simp add: income_createNewIncome_eq sample_rate_found reversed_nights
        sample_rate_fields ToNumber_def reversed_totals income_validate_Inr)
  have ev: "createNewIncome sample_env sample_db ''i1'' reversed_stay
            = (Inr ?doc, sample_db\<lparr>db_incomes := [?doc]\<rparr>)"
    unfolding createNewIncome_def sample_env_fields sample_db_fields reversed_stay_fields
      sample_truthy
    by (simp add: find_sample_rate sample_rate_fields reversed_not_after c)
  show "\<exists>doc. createNewIncome sample_env sample_db ''i1'' reversed_stay
            = (Inr doc, sample_db\<lparr>db_incomes := [doc]\<rparr>)
         \<and> i_checkIn doc = 1719356014 \<and> i_checkOut doc = 1718920414
         \<and> i_nights doc = - 4 \<and> i_totalInvoice doc = round_double (- (2178 / 5))"
    by (rule exI [of _ ?doc]) (simp add: ev reversed_doubles)
next
  let ?data = "\<lparr>ui_apartmentId = None, ui_intermediaryId = None, ui_rateId = None,
                ui_checkIn = Some 1719900000, ui_checkOut = None, ui_clientName = None,
                ui_clientNif = None, ui_clientPhone = None, ui_numberOfPeople = None,
                ui_discount = None, ui_observations = None\<rparr>"
  let ?doc = "(income_assigned stored_income ?data)
                \<lparr>i_nights := - 8,
                 i_totalIva := Num (- (2659938529915699 / 17592186044416)),
                 i_totalInvoice := Num (- (3831578120473805 / 4398046511104))\<rparr>"
  have u: "income_update zone_utc [sample_rate] stored_income ?data = Inr ?doc"
    by (simp add: income_update_eq income_assigned_fields stored_income_fields sample_rate_found
        moved_nights sample_rate_fields moved_totals income_validate_Inr)
  have id: "i_id ?doc = ''i1''"
    by (simp add: income_assigned_fields stored_income_fields)
  have ev: "updateIncomeById sample_env income_db ''i1''
              (empty_income_request\<lparr>iq_checkIn := Some 1719900000\<rparr>)
            = (Inr ?doc, income_db\<lparr>db_incomes := [?doc]\<rparr>)"
    unfolding updateIncomeById_def sample_env_fields sample_db_fields find_stored
    by (simp add: empty_income_request_def sample_truthy u save_income_def stored_income_fields id)
  show "\<exists>doc. updateIncomeById sample_env income_db ''i1''
              (empty_income_request\<lparr>iq_checkIn := Some 1719900000\<rparr>)
            = (Inr doc, income_db\<lparr>db_incomes := [doc]\<rparr>)
         \<and> i_checkIn doc = 1719900000 \<and> i_checkOut doc = 1719179614
         \<and> i_nights doc = - 8 \<and> i_totalInvoice doc = round_double (- (4356 / 5))"
    by (rule exI [of _ ?doc])
      (simp add: ev income_assigned_fields stored_income_fields reversed_doubles)
qed

section \<open>The properties of the quarterly dashboard\<close>

lemma fields_of_quarter:
  assumes g: "getQuarterDates (currentYear env) None quarter
                = \<lparr>startOfQuarter = Some s, endOfQuarter = Some e\<rparr>"
  shows "\<exists>d. getDashboardByQuarterData env (Inr allIncomes) (Inr allExpenses) quarter = Inr d
       \<and> map fst d = [''incomes'', ''totalIncomes'', ''expenses'', ''totalExpenses'', ''result'',
                      ''currentQuarter'', ''totalVATQuarterlyIncomes'',
                      ''totalVATQuarterlyExpenses'', ''quarterlyVAT'']
       \<and> map_of d ''quarterlyIncomes'' = None
       \<and> map_of d ''quarterlyExpenses'' = None
       \<and> map_of d ''startOfQuarter'' = None
       \<and> map_of d ''endOfQuarter'' = None"
  unfolding getDashboardByQuarterData_def g
  by (simp add: Let_def Model_find_window)

text \<open>
  Claim C8 says that the quarterly dashboard also carries \<open>quarterlyIncomes\<close>,
  \<open>quarterlyExpenses\<close>, \<open>startOfQuarter\<close> and \<open>endOfQuarter\<close>, as the response schema of its
  route lists them. For a quarter in \<open>{1,2,3,4}\<close> of a current year whose months lie
  within the range of a \<^verbatim>\<open>Date\<close>, the object the service returns has the nine
  properties of the unbounded dashboard and none of these four.
\<close>

theorem quarterly_dashboard_fields:
  assumes "quarter \<in> {1, 2, 3, 4}"
    and "- 271820 \<le> currentYear env" "currentYear env \<le> 275759"
  shows "\<exists>d. getDashboardByQuarterData env (Inr allIncomes) (Inr allExpenses) quarter = Inr d
       \<and> map fst d = [''incomes'', ''totalIncomes'', ''expenses'', ''totalExpenses'', ''result'',
                      ''currentQuarter'', ''totalVATQuarterlyIncomes'',
                      ''totalVATQuarterlyExpenses'', ''quarterlyVAT'']
       \<and> map_of d ''quarterlyIncomes'' = None
       \<and> map_of d ''quarterlyExpenses'' = None
       \<and> map_of d ''startOfQuarter'' = None
       \<and> map_of d ''endOfQuarter'' = None"
  using getQuarterDates_spec [OF assms] by (rule fields_of_quarter)

text \<open>The theorem at the first quarter of 2024 on the sample records.\<close>

theorem quarterly_dashboard_fields_witness:
  "(1::int) \<in> {1, 2, 3, 4}
   \<and> - 271820 \<le> currentYear sample_env \<and> currentYear sample_env \<le> 275759
   \<and> (\<exists>d. getDashboardByQuarterData sample_env (Inr window_incomes) (Inr window_expenses) 1 = Inr d
        \<and> map fst d = [''incomes'', ''totalIncomes'', ''expenses'', ''totalExpenses'', ''result'',
                      ''currentQuarter'', ''totalVATQuarterlyIncomes'',
                      ''totalVATQuarterlyExpenses'', ''quarterlyVAT'']
        \<and> map_of d ''quarterlyIncomes'' = None
        \<and> map_of d ''quarterlyExpenses'' = None
        \<and> map_of d ''startOfQuarter'' = None
        \<and> map_of d ''endOfQuarter'' = None)"
proof -
  have h: "(1::int) \<in> {1, 2, 3, 4}"
    "- 271820 \<le> currentYear sample_env" "currentYear sample_env \<le> 275759"
    by (simp_all add: sample_env_fields)
  show ?thesis
    using h quarterly_dashboard_fields [OF h, of window_incomes window_expenses] by simp
qed


end
